theory Spec2Isabelle
  imports Complex_Main "HOL-Library.Sublist" "HOL-Library.Multiset"
begin

section \<open>Client: the movie list component (MovieList)\<close>

subsection \<open>JavaScript values\<close>

text \<open>
  The component keeps whatever the fetch layer produced in its \<open>movies\<close> state, and the
  code checks shapes at run time (\<open>Array.isArray\<close>, \<open>typeof\<close>, \<open>||\<close>, \<open>?.\<close>). The
  collection is therefore modelled as an untyped JSON value: an object is the list of its
  own properties, a number is a finite real (JSON carries neither NaN nor an infinity).
\<close>

datatype jsval =
    JUndefined
  | JNull
  | JBool bool
  | JNum real
  | JStr string
  | JObj "(string \<times> jsval) list"
  | JArr "jsval list"

datatype error = TypeError

text \<open>Truthiness, as used by \<open>!x\<close>, \<open>x || y\<close> and \<open>x && y\<close>.\<close>

fun truthy :: "jsval \<Rightarrow> bool" where
  "truthy JUndefined = False"
| "truthy JNull = False"
| "truthy (JBool b) = b"
| "truthy (JNum n) = (n \<noteq> 0)"
| "truthy (JStr s) = (s \<noteq> [])"
| "truthy (JObj fs) = True"
| "truthy (JArr xs) = True"

fun typeof :: "jsval \<Rightarrow> string" where
  "typeof JUndefined = ''undefined''"
| "typeof JNull = ''object''"
| "typeof (JBool b) = ''boolean''"
| "typeof (JNum n) = ''number''"
| "typeof (JStr s) = ''string''"
| "typeof (JObj fs) = ''object''"
| "typeof (JArr xs) = ''object''"

fun isArray :: "jsval \<Rightarrow> bool" where
  "isArray (JArr xs) = True"
| "isArray v = False"

text \<open>
  \<open>field v k\<close> is the value of \<open>v.k\<close> where the access does not throw: an absent property
  reads as \<open>undefined\<close>. Only the keys \<open>_id\<close>, \<open>name\<close>, \<open>description\<close>, \<open>genre\<close>,
  \<open>releaseYear\<close> and \<open>rating\<close> are ever read, none of which is a built-in property of an
  array, a string, a number or a boolean.
\<close>

fun field :: "jsval \<Rightarrow> string \<Rightarrow> jsval" where
  "field (JObj fs) k = (case map_of fs k of None \<Rightarrow> JUndefined | Some v \<Rightarrow> v)"
| "field v k = JUndefined"

text \<open>\<open>v.k\<close>: reading a property of \<open>null\<close> or \<open>undefined\<close> throws a TypeError.\<close>

fun getProp :: "jsval \<Rightarrow> string \<Rightarrow> error + jsval" where
  "getProp JUndefined k = Inl TypeError"
| "getProp JNull k = Inl TypeError"
| "getProp v k = Inr (field v k)"


text \<open>\<open>a || b\<close>.\<close>

definition orElse :: "jsval \<Rightarrow> jsval \<Rightarrow> jsval" where
  "orElse a b = (if truthy a then a else b)"

subsection \<open>Strings\<close>

text \<open>
  A string is the list of the bytes of its UTF-8 encoding; on well-formed strings,
  equality and the relation of being a contiguous part are the same as on the UTF-16
  code units JavaScript compares.

  Built-ins of the JavaScript platform that the code reaches and that are not part of
  this repository are parameters of the model: \<open>String.prototype.toLowerCase\<close> (a
  function on whole strings: it is locale-independent but not character-wise), the
  locale-aware string order \<open>localeCompare\<close>, the coercions \<open>ToString\<close> and \<open>ToNumber\<close>
  for operands that are not already a string, respectively a number, and \<open>parseInt\<close> on
  a string (\<open>None\<close> stands for NaN).
\<close>

record platform =
  toLowerCaseJS :: "string \<Rightarrow> string"
  localeCompare :: "string \<Rightarrow> string \<Rightarrow> real"
  toStringJS :: "jsval \<Rightarrow> string"
  toNumberJS :: "jsval \<Rightarrow> real option"
  parseIntJS :: "string \<Rightarrow> int option"

text \<open>
  \<open>v.toLowerCase()\<close>: called on a value that is not a string, the method does not exist
  and the call throws a TypeError.
\<close>

definition toLowerCase :: "platform \<Rightarrow> jsval \<Rightarrow> error + string" where
  "toLowerCase P v = (case v of JStr s \<Rightarrow> Inr (toLowerCaseJS P s) | _ \<Rightarrow> Inl TypeError)"

text \<open>\<open>s.includes(t)\<close>: \<open>t\<close> occurs in \<open>s\<close> as a contiguous run of characters.\<close>

definition includesStr :: "string \<Rightarrow> string \<Rightarrow> bool" where
  "includesStr s t = sublist t s"

subsection \<open>Array callbacks that may throw\<close>

text \<open>
  \<open>Array.prototype.filter\<close> and \<open>map\<close> call the callback on the elements from left to
  right; an exception in the callback ends the whole call.
\<close>

fun filterE :: "('a \<Rightarrow> error + bool) \<Rightarrow> 'a list \<Rightarrow> error + 'a list" where
  "filterE p [] = Inr []"
| "filterE p (x # xs) =
     (case p x of
        Inl e \<Rightarrow> Inl e
      | Inr b \<Rightarrow>
          (case filterE p xs of
             Inl e \<Rightarrow> Inl e
           | Inr ys \<Rightarrow> Inr (if b then x # ys else ys)))"

fun mapE :: "('a \<Rightarrow> error + 'b) \<Rightarrow> 'a list \<Rightarrow> error + 'b list" where
  "mapE f [] = Inr []"
| "mapE f (x # xs) =
     (case f x of
        Inl e \<Rightarrow> Inl e
      | Inr y \<Rightarrow>
          (case mapE f xs of
             Inl e \<Rightarrow> Inl e
           | Inr ys \<Rightarrow> Inr (y # ys)))"

subsection \<open>Mutation folding: handleDelete and handleUpdate\<close>

text \<open>
  The state updaters passed to \<open>setMovies\<close> after the server call has succeeded. The
  identifier is the string the server uses as \<open>_id\<close>; \<open>movie._id !== id\<close> compares a
  value with a string, which holds unless the value is that very string.
\<close>

definition deleteFold :: "string \<Rightarrow> jsval \<Rightarrow> error + jsval" where
  "deleteFold id' prev =
     (case prev of
        JArr ms \<Rightarrow>
          (case filterE (\<lambda>movie. case getProp movie ''_id'' of
                                     Inl e \<Rightarrow> Inl e
                                   | Inr v \<Rightarrow> Inr (v \<noteq> JStr id')) ms of
             Inl e \<Rightarrow> Inl e
           | Inr r \<Rightarrow> Inr (JArr r))
      | _ \<Rightarrow> Inr (JArr []))"

definition updateFold :: "string \<Rightarrow> jsval \<Rightarrow> jsval \<Rightarrow> error + jsval" where
  "updateFold id' updatedMovie prev =
     (case prev of
        JArr ms \<Rightarrow>
          (case mapE (\<lambda>movie. case getProp movie ''_id'' of
                                  Inl e \<Rightarrow> Inl e
                                | Inr v \<Rightarrow> Inr (if v = JStr id' then updatedMovie else movie)) ms of
             Inl e \<Rightarrow> Inl e
           | Inr r \<Rightarrow> Inr (JArr r))
      | _ \<Rightarrow> Inr (JArr []))"

subsection \<open>Derived view: uniqueGenres\<close>




subsection \<open>Derived view: filteredAndSortedMovies\<close>

text \<open>
  The filter callback. \<open>searchTerm\<close> and \<open>filterGenre\<close> are component state fed from
  text inputs, hence strings. The disjunction short-circuits as in the source: the
  description is lower-cased only when the name did not match.
\<close>

definition matchesSearch :: "platform \<Rightarrow> string \<Rightarrow> jsval \<Rightarrow> jsval \<Rightarrow> error + bool" where
  "matchesSearch P searchTerm movieName movieDescription =
     (if searchTerm = [] then Inr True
      else
        (case toLowerCase P movieName of
           Inl e \<Rightarrow> Inl e
         | Inr n \<Rightarrow>
             if includesStr n (toLowerCaseJS P searchTerm) then Inr True
             else
               (case toLowerCase P movieDescription of
                  Inl e \<Rightarrow> Inl e
                | Inr d \<Rightarrow> Inr (includesStr d (toLowerCaseJS P searchTerm)))))"

definition movieFilter :: "platform \<Rightarrow> string \<Rightarrow> string \<Rightarrow> jsval \<Rightarrow> error + bool" where
  "movieFilter P searchTerm filterGenre movie =
     (if \<not> truthy movie \<or> typeof movie \<noteq> ''object'' then Inr False
      else
        (let movieName = orElse (field movie ''name'') (JStr []);
             movieDescription = orElse (field movie ''description'') (JStr []);
             movieGenre = orElse (field movie ''genre'') (JStr [])
         in case matchesSearch P searchTerm movieName movieDescription of
              Inl e \<Rightarrow> Inl e
            | Inr ms \<Rightarrow>
                Inr (ms \<and> (filterGenre = ''all'' \<or> movieGenre = JStr filterGenre))))"

definition filtered :: "platform \<Rightarrow> jsval list \<Rightarrow> string \<Rightarrow> string \<Rightarrow> error + jsval list" where
  "filtered P ms searchTerm filterGenre = filterE (movieFilter P searchTerm filterGenre) ms"

subsection \<open>Sorting\<close>

definition toStr :: "platform \<Rightarrow> jsval \<Rightarrow> string" where
  "toStr P v = (case v of JStr s \<Rightarrow> s | _ \<Rightarrow> toStringJS P v)"

definition toNumber :: "platform \<Rightarrow> jsval \<Rightarrow> real option" where
  "toNumber P v = (case v of JNum n \<Rightarrow> Some n | _ \<Rightarrow> toNumberJS P v)"

text \<open>\<open>a - b\<close> on arbitrary operands; NaN if either operand converts to NaN.\<close>

definition jsMinus :: "platform \<Rightarrow> jsval \<Rightarrow> jsval \<Rightarrow> real option" where
  "jsMinus P a b =
     (case toNumber P a of
        None \<Rightarrow> None
      | Some x \<Rightarrow> (case toNumber P b of None \<Rightarrow> None | Some y \<Rightarrow> Some (x - y)))"

text \<open>
  \<open>a.localeCompare(b)\<close>: the receiver must be a string (otherwise the method is missing
  and the call throws), the argument is converted to a string.
\<close>

definition callLocaleCompare :: "platform \<Rightarrow> jsval \<Rightarrow> jsval \<Rightarrow> error + real option" where
  "callLocaleCompare P a b =
     (case a of
        JStr s \<Rightarrow> Inr (Some (localeCompare P s (toStr P b)))
      | _ \<Rightarrow> Inl TypeError)"

text \<open>The comparator passed to \<open>filtered.sort\<close>. Its result is a number or NaN.\<close>

definition compareMovies ::
  "platform \<Rightarrow> string \<Rightarrow> string \<Rightarrow> jsval \<Rightarrow> jsval \<Rightarrow> error + real option" where
  "compareMovies P sortBy sortOrder a b =
     (let aName = orElse (field a ''name'') (JStr []);
          bName = orElse (field b ''name'') (JStr []);
          aYear = orElse (field a ''releaseYear'') (JNum 0);
          bYear = orElse (field b ''releaseYear'') (JNum 0);
          aRating = orElse (field a ''rating'') (JNum 0);
          bRating = orElse (field b ''rating'') (JNum 0);
          comparison =
            (if sortBy = ''name'' then callLocaleCompare P aName bName
             else if sortBy = ''year'' then Inr (jsMinus P aYear bYear)
             else if sortBy = ''rating'' then Inr (jsMinus P aRating bRating)
             else Inr (Some 0))
      in case comparison of
           Inl e \<Rightarrow> Inl e
         | Inr c \<Rightarrow> Inr (if sortOrder = ''asc'' then c else map_option uminus c))"

text \<open>
  \<open>Array.prototype.sort\<close> with a comparator. The language fixes the result only for a
  consistent comparator: then it is the stable arrangement in which no element compares
  greater than a later one, which insertion from the right computes. A NaN from the
  comparator counts as \<open>0\<close>; an exception in the comparator ends the sort. For an
  inconsistent comparator the order (and which pairs are compared) is left to the
  engine, and this function is one possible behaviour.
\<close>

definition sortCompare :: "real option \<Rightarrow> real" where
  "sortCompare v = (case v of None \<Rightarrow> 0 | Some r \<Rightarrow> r)"

fun insertE :: "('a \<Rightarrow> 'a \<Rightarrow> error + real option) \<Rightarrow> 'a \<Rightarrow> 'a list \<Rightarrow> error + 'a list" where
  "insertE cmp x [] = Inr [x]"
| "insertE cmp x (y # ys) =
     (case cmp x y of
        Inl e \<Rightarrow> Inl e
      | Inr v \<Rightarrow>
          if sortCompare v \<le> 0 then Inr (x # y # ys)
          else (case insertE cmp x ys of Inl e \<Rightarrow> Inl e | Inr r \<Rightarrow> Inr (y # r)))"

fun arraySort :: "('a \<Rightarrow> 'a \<Rightarrow> error + real option) \<Rightarrow> 'a list \<Rightarrow> error + 'a list" where
  "arraySort cmp [] = Inr []"
| "arraySort cmp (x # xs) =
     (case arraySort cmp xs of Inl e \<Rightarrow> Inl e | Inr r \<Rightarrow> insertE cmp x r)"

definition filteredAndSortedMovies ::
  "platform \<Rightarrow> jsval \<Rightarrow> string \<Rightarrow> string \<Rightarrow> string \<Rightarrow> string \<Rightarrow> error + jsval list" where
  "filteredAndSortedMovies P movies searchTerm filterGenre sortBy sortOrder =
     (case movies of
        JArr ms \<Rightarrow>
          if ms = [] then Inr []
          else
            (case filtered P ms searchTerm filterGenre of
               Inl e \<Rightarrow> Inl e
             | Inr fs \<Rightarrow> arraySort (compareMovies P sortBy sortOrder) fs)
      | _ \<Rightarrow> Inr [])"

subsection \<open>Component state and handleSort\<close>

record ui_state =
  searchTerm :: string
  filterGenre :: string
  sortBy :: string
  sortOrder :: string

definition initialState :: ui_state where
  "initialState =
     \<lparr>searchTerm = [], filterGenre = ''all'', sortBy = ''name'', sortOrder = ''asc''\<rparr>"

definition handleSort :: "string \<Rightarrow> ui_state \<Rightarrow> ui_state" where
  "handleSort fld st =
     (if sortBy st = fld
      then st\<lparr>sortOrder := (if sortOrder st = ''asc'' then ''desc'' else ''asc'')\<rparr>
      else st\<lparr>sortBy := fld, sortOrder := ''asc''\<rparr>)"

text \<open>The list the component renders for a collection and a state.\<close>

definition view :: "platform \<Rightarrow> jsval \<Rightarrow> ui_state \<Rightarrow> error + jsval list" where
  "view P movies st =
     filteredAndSortedMovies P movies (searchTerm st) (filterGenre st) (sortBy st) (sortOrder st)"

text \<open>
  A platform to evaluate examples on, meant for strings of ASCII characters: lower case
  moves the letters \<open>A\<close> to \<open>Z\<close> only, and strings are ordered by their character codes.
  \<open>ToNumber\<close> and \<open>parseInt\<close> are given on plain decimal numerals (and \<open>ToNumber\<close> on the
  empty string, which is \<open>0\<close>), the only strings the examples convert; elsewhere they
  yield NaN, and \<open>ToString\<close> the empty string.
\<close>

definition digit :: "char \<Rightarrow> nat option" where
  "digit c = map_of (zip ''0123456789'' [0, 1, 2, 3, 4, 5, 6, 7, 8, 9]) c"

fun decimalFrom :: "nat \<Rightarrow> string \<Rightarrow> nat option" where
  "decimalFrom acc [] = Some acc"
| "decimalFrom acc (c # cs) =
     (case digit c of None \<Rightarrow> None | Some d \<Rightarrow> decimalFrom (10 * acc + d) cs)"

definition decimal :: "string \<Rightarrow> nat option" where
  "decimal s = (if s = [] then None else decimalFrom 0 s)"

definition asciiLower :: "char \<Rightarrow> char" where
  "asciiLower c =
     (case map_of (zip ''ABCDEFGHIJKLMNOPQRSTUVWXYZ'' ''abcdefghijklmnopqrstuvwxyz'') c of
        None \<Rightarrow> c
      | Some d \<Rightarrow> d)"

fun codeOrder :: "string \<Rightarrow> string \<Rightarrow> real" where
  "codeOrder [] [] = 0"
| "codeOrder [] (y # ys) = - 1"
| "codeOrder (x # xs) [] = 1"
| "codeOrder (x # xs) (y # ys) =
     (if (of_char x :: nat) < of_char y then - 1
      else if (of_char y :: nat) < of_char x then 1
      else codeOrder xs ys)"

definition codePlatform :: platform where
  "codePlatform =
     \<lparr>toLowerCaseJS = map asciiLower,
      localeCompare = codeOrder,
      toStringJS = (\<lambda>v. []),
      toNumberJS =
        (\<lambda>v. case v of
               JStr s \<Rightarrow> if s = [] then Some 0 else map_option real (decimal s)
             | _ \<Rightarrow> None),
      parseIntJS = (\<lambda>s. map_option int (decimal s))\<rparr>"

section \<open>Server: the movie controller\<close>

subsection \<open>Documents and the store\<close>

text \<open>
  A movie document, with the fields of the Movie schema that the controller reads or
  writes (\<open>m_id\<close> is \<open>_id\<close>), and a user document with the counters and the watchlist
  the controller maintains. Identifiers are compared after the schema's casting, so
  they are strings here. The collection keeps its documents in insertion order.
\<close>

record movie_doc =
  m_id :: string
  addedBy :: string
  title :: string
  year :: int
  genres :: "string list"
  duration :: int
  rating :: real
  watched :: bool
  watchDate :: "int option"

record user_doc =
  movieCount :: int
  totalWatchTime :: int
  watchlist :: "string list"

record db =
  movies :: "movie_doc list"
  users :: "string \<rightharpoonup> user_doc"

text \<open>
  A filter document: the conjunction of the conditions present. The values are as the
  controller puts them there; \<open>q_year\<close> is the query string as received.
\<close>

record query =
  q_addedBy :: string
  q_id :: "string option"
  q_genres :: "string option"
  q_year :: "string option"
  q_watched :: "bool option"
  q_text :: "string option"

text \<open>
  What the database and the object-document mapper do is not part of this repository
  and is a parameter of the model:
  \<^item> \<open>sortDocs\<close>: the order a sort specification puts documents in;
  \<open>textSearch\<close>: which documents a \<open>$text\<close> search finds;
  \<^item> \<open>castNumber\<close>: the number the schema's cast makes of a string in a filter for
    \<open>find\<close>, \<open>findOne\<close> and \<open>countDocuments\<close> (\<open>None\<close>: the cast fails and the call rejects);
  \<^item> \<open>skipCursor\<close> and \<open>limitCursor\<close>: the documents a cursor keeps for the argument of
    \<open>skip\<close> (a number or NaN) and of \<open>limit\<close> (an integer or NaN), \<open>None\<close> when the call
    rejects the argument;
  \<^item> \<open>aggregateMatch\<close>: which documents the \<open>$match\<close> stage of an aggregation selects
    for a filter, which it receives without the schema's cast.
\<close>

record store =
  sortDocs :: "string \<Rightarrow> movie_doc list \<Rightarrow> movie_doc list"
  textSearch :: "string \<Rightarrow> movie_doc \<Rightarrow> bool"
  castNumber :: "string \<Rightarrow> real option"
  skipCursor :: "real option \<Rightarrow> movie_doc list \<Rightarrow> movie_doc list option"
  limitCursor :: "int option \<Rightarrow> movie_doc list \<Rightarrow> movie_doc list option"
  aggregateMatch :: "query \<Rightarrow> movie_doc \<Rightarrow> bool"

text \<open>
  A handler awaits its storage calls one after the other, and each may reject, which
  the handler's \<open>catch\<close> turns into a 500 reply. \<open>fault = Some i\<close> says that the call
  number \<open>i\<close> of the handler (counted from 0) rejects; \<open>None\<close> that none does.
\<close>

definition rejects :: "nat option \<Rightarrow> nat \<Rightarrow> bool" where
  "rejects fault i = (fault = Some i)"

text \<open>
  A reply: success with its status and data, an error with its status and message, or
  the 400 reply that carries the validation errors.
\<close>

datatype 'a reply = Ok nat 'a | Fail nat string | Invalid nat "string list"

subsection \<open>Queries\<close>

text \<open>
  Whether a document satisfies a filter in \<open>find\<close>, \<open>findOne\<close> and \<open>countDocuments\<close>.
  \<open>genres: g\<close> on the array field holds when the array contains \<open>g\<close>; the year is
  compared with the number the cast makes of the string.
\<close>

definition matches :: "store \<Rightarrow> query \<Rightarrow> movie_doc \<Rightarrow> bool" where
  "matches S q m =
     (addedBy m = q_addedBy q \<and>
      (case q_id q of None \<Rightarrow> True | Some i \<Rightarrow> m_id m = i) \<and>
      (case q_genres q of None \<Rightarrow> True | Some g \<Rightarrow> g \<in> set (genres m)) \<and>
      (case q_year q of None \<Rightarrow> True | Some y \<Rightarrow> castNumber S y = Some (real_of_int (year m))) \<and>
      (case q_watched q of None \<Rightarrow> True | Some w \<Rightarrow> watched m = w) \<and>
      (case q_text q of None \<Rightarrow> True | Some t \<Rightarrow> textSearch S t m))"

text \<open>The cast of a filter succeeds.\<close>

definition castable :: "store \<Rightarrow> query \<Rightarrow> bool" where
  "castable S q = (case q_year q of None \<Rightarrow> True | Some y \<Rightarrow> castNumber S y \<noteq> None)"

definition ownedById :: "string \<Rightarrow> string \<Rightarrow> query" where
  "ownedById uid id' =
     \<lparr>q_addedBy = uid, q_id = Some id', q_genres = None, q_year = None,
      q_watched = None, q_text = None\<rparr>"

definition ownedBy :: "string \<Rightarrow> query" where
  "ownedBy uid =
     \<lparr>q_addedBy = uid, q_id = None, q_genres = None, q_year = None,
      q_watched = None, q_text = None\<rparr>"

text \<open>
  \<open>req.query\<close> of the list endpoint: each parameter is absent (\<open>None\<close>) or the string
  received.
\<close>

record list_params =
  p_page :: "string option"
  p_limit :: "string option"
  p_sort :: "string option"
  p_genre :: "string option"
  p_year :: "string option"
  p_search :: "string option"
  p_watched :: "string option"

text \<open>\<open>if (genre)\<close>, \<open>if (year)\<close>, \<open>if (search)\<close>: an empty string counts as absent.\<close>

definition nonEmpty :: "string option \<Rightarrow> string option" where
  "nonEmpty v = (case v of None \<Rightarrow> None | Some s \<Rightarrow> if s = [] then None else Some s)"

definition buildQuery :: "string \<Rightarrow> list_params \<Rightarrow> query" where
  "buildQuery uid ps =
     \<lparr>q_addedBy = uid,
      q_id = None,
      q_genres = nonEmpty (p_genre ps),
      q_year = nonEmpty (p_year ps),
      q_watched = (case p_watched ps of None \<Rightarrow> None | Some w \<Rightarrow> Some (w = ''true'')),
      q_text = nonEmpty (p_search ps)\<rparr>"

subsection \<open>getMovies\<close>

text \<open>
  \<open>page\<close> and \<open>limit\<close> are the query strings, or the numbers \<open>1\<close> and \<open>10\<close> when
  absent. The handler reads them in two ways: as operands of \<open>-\<close>, \<open>*\<close> and \<open>/\<close>, which
  convert with \<open>ToNumber\<close>, and through \<open>parseInt\<close>. Both are built-ins of the platform;
  \<open>None\<close> stands for NaN.
\<close>

definition numParam :: "platform \<Rightarrow> real \<Rightarrow> string option \<Rightarrow> real option" where
  "numParam P d v = (case v of None \<Rightarrow> Some d | Some s \<Rightarrow> toNumberJS P (JStr s))"

definition intParam :: "platform \<Rightarrow> int \<Rightarrow> string option \<Rightarrow> int option" where
  "intParam P d v = (case v of None \<Rightarrow> Some d | Some s \<Rightarrow> parseIntJS P s)"

text \<open>\<open>const skip = (page - 1) * limit\<close>.\<close>

definition skipOf :: "platform \<Rightarrow> list_params \<Rightarrow> real option" where
  "skipOf P ps =
     (case numParam P 1 (p_page ps) of
        None \<Rightarrow> None
      | Some page \<Rightarrow>
          (case numParam P 10 (p_limit ps) of
             None \<Rightarrow> None
           | Some limit' \<Rightarrow> Some ((page - 1) * limit')))"

text \<open>
  \<open>Math.ceil(total / limit)\<close>. The quotient by NaN is NaN and the quotient by \<open>0\<close> is NaN
  or an infinity; the reply, being JSON, carries \<open>null\<close> for each of them (\<open>None\<close>).
\<close>

definition pagesOf :: "platform \<Rightarrow> list_params \<Rightarrow> nat \<Rightarrow> int option" where
  "pagesOf P ps total' =
     (case numParam P 10 (p_limit ps) of
        None \<Rightarrow> None
      | Some limit' \<Rightarrow> if limit' = 0 then None else Some \<lceil>real total' / limit'\<rceil>)"

definition sortOf :: "list_params \<Rightarrow> string" where
  "sortOf ps = (case p_sort ps of None \<Rightarrow> ''-createdAt'' | Some s \<Rightarrow> s)"

record pagination =
  pg_page :: "int option"
  pg_limit :: "int option"
  pg_total :: int
  pg_pages :: "int option"

record stats =
  totalMovies :: int
  avgRating :: real
  totalRuntime :: int
  genresSeen :: "string list set"

record list_data =
  d_movies :: "movie_doc list"
  d_pagination :: pagination
  d_stats :: stats

text \<open>
  The \<open>$group\<close> stage with \<open>_id: null\<close>: one group over all matched documents, and no
  group at all when nothing matched. \<open>$addToSet\<close> collects the distinct \<open>genres\<close> arrays.
\<close>

definition groupStats :: "movie_doc list \<Rightarrow> stats list" where
  "groupStats ms =
     (if ms = [] then []
      else [\<lparr>totalMovies = int (length ms),
             avgRating = sum_list (map rating ms) / real (length ms),
             totalRuntime = sum_list (map duration ms),
             genresSeen = set (map genres ms)\<rparr>])"

definition defaultStats :: stats where
  "defaultStats = \<lparr>totalMovies = 0, avgRating = 0, totalRuntime = 0, genresSeen = {}\<rparr>"

text \<open>
  The three storage calls are \<open>find\<close> (with sort, skip and limit), \<open>countDocuments\<close> and
  \<open>aggregate\<close>. \<open>find\<close> rejects when the cast of the filter fails or the cursor rejects
  an argument. The \<open>populate\<close> of the owner's public fields does not change which
  documents are returned and is left out.
\<close>

definition getMovies ::
  "platform \<Rightarrow> store \<Rightarrow> string \<Rightarrow> list_params \<Rightarrow> movie_doc list \<Rightarrow> nat option
     \<Rightarrow> list_data reply" where
  "getMovies P S uid ps coll fault =
     (let query = buildQuery uid ps;
          skip = skipOf P ps;
          found = filter (matches S query) coll
      in if rejects fault 0 \<or> \<not> castable S query then Fail 500 ''Server error''
         else
           (case skipCursor S skip (sortDocs S (sortOf ps) found) of
              None \<Rightarrow> Fail 500 ''Server error''
            | Some rest \<Rightarrow>
                (case limitCursor S (intParam P 10 (p_limit ps)) rest of
                   None \<Rightarrow> Fail 500 ''Server error''
                 | Some page \<Rightarrow>
                     if rejects fault 1 \<or> rejects fault 2 then Fail 500 ''Server error''
                     else
                       Ok 200
                         \<lparr>d_movies = page,
                          d_pagination =
                            \<lparr>pg_page = intParam P 1 (p_page ps),
                             pg_limit = intParam P 10 (p_limit ps),
                             pg_total = int (length found),
                             pg_pages = pagesOf P ps (length found)\<rparr>,
                          d_stats =
                            (case groupStats (filter (aggregateMatch S query) coll) of
                               [] \<Rightarrow> defaultStats
                             | s # _ \<Rightarrow> s)\<rparr>)))"

subsection \<open>getOverviewStats\<close>

record overview =
  ov_totalMovies :: int
  ov_avgRating :: real
  ov_totalRuntime :: int
  ov_watchedCount :: int

record overview_data =
  o_overview :: overview
  o_topGenres :: "(string \<times> nat) list"
  o_recentYears :: "(int \<times> nat) list"

definition groupOverview :: "movie_doc list \<Rightarrow> overview list" where
  "groupOverview ms =
     (if ms = [] then []
      else [\<lparr>ov_totalMovies = int (length ms),
             ov_avgRating = sum_list (map rating ms) / real (length ms),
             ov_totalRuntime = sum_list (map duration ms),
             ov_watchedCount = int (length (filter watched ms))\<rparr>])"

definition defaultOverview :: overview where
  "defaultOverview =
     \<lparr>ov_totalMovies = 0, ov_avgRating = 0, ov_totalRuntime = 0, ov_watchedCount = 0\<rparr>"

text \<open>
  \<open>$group\<close> by a key with a count per key. The database leaves the order of the groups
  open; here it is the order of the keys' last occurrences. The \<open>$sort\<close> that follows is
  descending and keeps tied groups in that order.
\<close>

definition countBy :: "'k list \<Rightarrow> ('k \<times> nat) list" where
  "countBy ks = map (\<lambda>k. (k, count_list ks k)) (remdups ks)"

definition genreStats :: "movie_doc list \<Rightarrow> (string \<times> nat) list" where
  "genreStats ms = take 5 (sort_key (\<lambda>(g, c). - int c) (countBy (concat (map genres ms))))"

definition yearStats :: "movie_doc list \<Rightarrow> (int \<times> nat) list" where
  "yearStats ms = take 5 (sort_key (\<lambda>(y, c). - y) (countBy (map year ms)))"

definition getOverviewStats ::
  "store \<Rightarrow> string \<Rightarrow> movie_doc list \<Rightarrow> nat option \<Rightarrow> overview_data reply" where
  "getOverviewStats S uid coll fault =
     (let found = filter (aggregateMatch S (ownedBy uid)) coll
      in if rejects fault 0 \<or> rejects fault 1 \<or> rejects fault 2 then Fail 500 ''Server error''
         else
           Ok 200
             \<lparr>o_overview = (case groupOverview found of [] \<Rightarrow> defaultOverview | s # _ \<Rightarrow> s),
              o_topGenres = genreStats found,
              o_recentYears = yearStats found\<rparr>)"

subsection \<open>Single-document operations\<close>

text \<open>
  \<open>findOne\<close>, \<open>findOneAndUpdate\<close> and \<open>findOneAndDelete\<close> act on the first document of
  the collection that satisfies the filter.
\<close>

fun replaceFirst :: "('a \<Rightarrow> bool) \<Rightarrow> ('a \<Rightarrow> 'a) \<Rightarrow> 'a list \<Rightarrow> 'a list" where
  "replaceFirst p f [] = []"
| "replaceFirst p f (x # xs) = (if p x then f x # xs else x # replaceFirst p f xs)"

fun removeFirst :: "('a \<Rightarrow> bool) \<Rightarrow> 'a list \<Rightarrow> 'a list" where
  "removeFirst p [] = []"
| "removeFirst p (x # xs) = (if p x then xs else x # removeFirst p xs)"

definition getMovie ::
  "store \<Rightarrow> string \<Rightarrow> string \<Rightarrow> movie_doc list \<Rightarrow> nat option \<Rightarrow> movie_doc reply" where
  "getMovie S uid id' coll fault =
     (if rejects fault 0 then Fail 500 ''Server error''
      else
        (case find (matches S (ownedById uid id')) coll of
           None \<Rightarrow> Fail 404 ''Movie not found''
         | Some movie \<Rightarrow> Ok 200 movie))"

text \<open>
  \<open>User.findByIdAndUpdate(uid, {$inc: ...})\<close>: adds to the two counters of the user
  document, and does nothing where no such user is stored.
\<close>

definition incCounters :: "string \<Rightarrow> int \<Rightarrow> int \<Rightarrow> (string \<rightharpoonup> user_doc) \<Rightarrow> (string \<rightharpoonup> user_doc)" where
  "incCounters uid dc dt us =
     (case us uid of
        None \<Rightarrow> us
      | Some u \<Rightarrow>
          us(uid \<mapsto> u\<lparr>movieCount := movieCount u + dc, totalWatchTime := totalWatchTime u + dt\<rparr>))"

text \<open>\<open>movie.duration || 0\<close>.\<close>

definition durationOr0 :: "movie_doc \<Rightarrow> int" where
  "durationOr0 movie = (if duration movie \<noteq> 0 then duration movie else 0)"

text \<open>
  \<open>errs\<close> is the list \<open>validationResult(req)\<close> holds. \<open>Movie.create\<close> stores the body under
  the identifier \<open>newId\<close> the database assigns, owned by the requesting user; it rejects
  (like any storage call) when it is told to, and when the identifier is taken.
\<close>

definition createMovie ::
  "string \<Rightarrow> string list \<Rightarrow> movie_doc \<Rightarrow> string \<Rightarrow> db \<Rightarrow> nat option \<Rightarrow> movie_doc reply \<times> db" where
  "createMovie uid errs body newId st fault =
     (if errs \<noteq> [] then (Invalid 400 errs, st)
      else if rejects fault 0 \<or> newId \<in> m_id ` set (movies st) then (Fail 500 ''Server error'', st)
      else
        (let movie = body\<lparr>m_id := newId, addedBy := uid\<rparr>;
             st1 = st\<lparr>movies := movies st @ [movie]\<rparr>
         in if rejects fault 1 then (Fail 500 ''Server error'', st1)
            else
              (Ok 201 movie,
               st1\<lparr>users := incCounters uid 1 (durationOr0 movie) (users st1)\<rparr>)))"

text \<open>
  The update body may set any field of the document except its \<open>_id\<close>; it is the
  function \<open>upd\<close>.
\<close>

definition updateMovie ::
  "store \<Rightarrow> string \<Rightarrow> string list \<Rightarrow> string \<Rightarrow> (movie_doc \<Rightarrow> movie_doc) \<Rightarrow> db \<Rightarrow> nat option
     \<Rightarrow> movie_doc reply \<times> db" where
  "updateMovie S uid errs id' upd st fault =
     (if errs \<noteq> [] then (Invalid 400 errs, st)
      else if rejects fault 0 then (Fail 500 ''Server error'', st)
      else
        (case find (matches S (ownedById uid id')) (movies st) of
           None \<Rightarrow> (Fail 404 ''Movie not found'', st)
         | Some old \<Rightarrow>
             (Ok 200 ((upd old)\<lparr>m_id := m_id old\<rparr>),
              st\<lparr>movies := replaceFirst (matches S (ownedById uid id'))
                              (\<lambda>m. (upd m)\<lparr>m_id := m_id m\<rparr>) (movies st)\<rparr>)))"

definition deleteMovie ::
  "store \<Rightarrow> string \<Rightarrow> string \<Rightarrow> db \<Rightarrow> nat option \<Rightarrow> unit reply \<times> db" where
  "deleteMovie S uid id' st fault =
     (if rejects fault 0 then (Fail 500 ''Server error'', st)
      else
        (case find (matches S (ownedById uid id')) (movies st) of
           None \<Rightarrow> (Fail 404 ''Movie not found'', st)
         | Some movie \<Rightarrow>
             (let st1 = st\<lparr>movies := removeFirst (matches S (ownedById uid id')) (movies st)\<rparr>
              in if rejects fault 1 then (Fail 500 ''Server error'', st1)
                 else
                   (Ok 200 (),
                    st1\<lparr>users := incCounters uid (- 1) (- durationOr0 movie) (users st1)\<rparr>))))"

text \<open>\<open>now\<close> is the value of \<open>Date.now()\<close>. \<open>movie.save()\<close> writes the document back.\<close>

definition toggleWatchStatus ::
  "store \<Rightarrow> string \<Rightarrow> string \<Rightarrow> int \<Rightarrow> db \<Rightarrow> nat option \<Rightarrow> movie_doc reply \<times> db" where
  "toggleWatchStatus S uid id' now st fault =
     (if rejects fault 0 then (Fail 500 ''Server error'', st)
      else
        (case find (matches S (ownedById uid id')) (movies st) of
           None \<Rightarrow> (Fail 404 ''Movie not found'', st)
         | Some old \<Rightarrow>
             (let movie = old\<lparr>watched := \<not> watched old,
                              watchDate := (if \<not> watched old then Some now else None)\<rparr>
              in if rejects fault 1 then (Fail 500 ''Server error'', st)
                 else
                   (Ok 200 movie,
                    st\<lparr>movies := replaceFirst (\<lambda>m. m_id m = m_id old) (\<lambda>m. movie) (movies st)\<rparr>))))"

subsection \<open>addToWatchlist\<close>

text \<open>
  Reading \<open>user.watchlist\<close> of a user that is not stored throws, which the \<open>catch\<close>
  answers with 500 like a rejected storage call.
\<close>

definition addToWatchlist ::
  "string \<Rightarrow> string \<Rightarrow> db \<Rightarrow> nat option \<Rightarrow> unit reply \<times> db" where
  "addToWatchlist uid id' st fault =
     (if rejects fault 0 then (Fail 500 ''Server error'', st)
      else
        (case users st uid of
           None \<Rightarrow> (Fail 500 ''Server error'', st)
         | Some user \<Rightarrow>
             if id' \<in> set (watchlist user) then (Fail 400 ''Movie already in watchlist'', st)
             else if rejects fault 1 then (Fail 500 ''Server error'', st)
             else
               (Ok 200 (),
                st\<lparr>users := (users st)(uid \<mapsto> user\<lparr>watchlist := watchlist user @ [id']\<rparr>)\<rparr>)))"

text \<open>A run of watchlist requests of one user, each with its own storage behaviour.\<close>

fun addAll :: "string \<Rightarrow> (string \<times> nat option) list \<Rightarrow> db \<Rightarrow> db" where
  "addAll uid [] st = st"
| "addAll uid ((i, fault) # rs) st = addAll uid rs (snd (addToWatchlist uid i st fault))"

section \<open>Specification-level notions and auxiliary functions\<close>

subsection \<open>The filter condition in the words of the specification\<close>

text \<open>
  The value of a movie's own property, if it has one; values that are not plain objects
  have none of the properties in question.
\<close>

definition ownProp :: "jsval \<Rightarrow> string \<Rightarrow> jsval option" where
  "ownProp m k = (case m of JObj fs \<Rightarrow> map_of fs k | _ \<Rightarrow> None)"

text \<open>The values that count as absent: \<open>undefined\<close>, \<open>null\<close>, \<open>false\<close>, \<open>0\<close> and the empty string.\<close>

definition falsy :: "jsval \<Rightarrow> bool" where
  "falsy v = (v \<in> {JUndefined, JNull, JBool False, JNum 0, JStr []})"

text \<open>
  A text field is well-formed when it is a string or missing, and it counts with its
  string, as the empty string when it is missing.
\<close>

definition textual :: "jsval \<Rightarrow> string \<Rightarrow> bool" where
  "textual m k = (case ownProp m k of None \<Rightarrow> True | Some (JStr s) \<Rightarrow> True | Some v \<Rightarrow> falsy v)"

definition textAt :: "jsval \<Rightarrow> string \<Rightarrow> string" where
  "textAt m k = (case ownProp m k of Some (JStr s) \<Rightarrow> s | _ \<Rightarrow> [])"

text \<open>The entries the filter looks at at all: objects (arrays included, \<open>null\<close> not).\<close>

definition isObject :: "jsval \<Rightarrow> bool" where
  "isObject m = (case m of JObj fs \<Rightarrow> True | JArr xs \<Rightarrow> True | _ \<Rightarrow> False)"

text \<open>
  A search term is a case-insensitive substring of a text when, both taken to lower
  case by the platform, the term is a contiguous part of the text.
\<close>

definition ciSubstring :: "platform \<Rightarrow> string \<Rightarrow> string \<Rightarrow> bool" where
  "ciSubstring P s t = (\<exists>ps ss. toLowerCaseJS P t = ps @ toLowerCaseJS P s @ ss)"

text \<open>
  The genre of a movie equals \<open>g\<close> exactly: the field is the string \<open>g\<close>, or it is
  missing and \<open>g\<close> is the empty string.
\<close>

definition genreIs :: "jsval \<Rightarrow> string \<Rightarrow> bool" where
  "genreIs m g =
     (case ownProp m ''genre'' of
        None \<Rightarrow> g = []
      | Some (JStr x) \<Rightarrow> x = g
      | Some v \<Rightarrow> falsy v \<and> g = [])"

text \<open>The condition under which the specification includes a movie.\<close>

definition shown :: "platform \<Rightarrow> string \<Rightarrow> string \<Rightarrow> jsval \<Rightarrow> bool" where
  "shown P s g m =
     (isObject m \<and>
      (s = [] \<or> ciSubstring P s (textAt m ''name'')
              \<or> ciSubstring P s (textAt m ''description'')) \<and>
      (g = ''all'' \<or> genreIs m g))"

subsection \<open>Example data\<close>

text \<open>
  The two movies of the specification's examples, which have neither a description nor
  a genre, and a movie that has both.
\<close>

definition dune :: jsval where
  "dune = JObj [(''_id'', JStr ''m1''), (''name'', JStr ''Dune''), (''releaseYear'', JNum 2021), (''rating'', JNum 8)]"

definition arrival :: jsval where
  "arrival = JObj [(''_id'', JStr ''m2''), (''name'', JStr ''Arrival''), (''releaseYear'', JNum 2016), (''rating'', JNum 7.9)]"

definition sands :: jsval where
  "sands = JObj [(''_id'', JStr ''m3''), (''name'', JStr ''Sands''),
                 (''description'', JStr ''A DUNE sea''), (''genre'', JStr ''Sci-Fi''),
                 (''releaseYear'', JNum 2016)]"

subsection \<open>Sorting with a comparator that always yields a number\<close>

text \<open>
  \<open>arraySort\<close> for a comparator that neither throws nor returns NaN, as a function into
  lists; \<open>arraySort_pure\<close> below relates the two.
\<close>

fun pinsert :: "('a \<Rightarrow> 'a \<Rightarrow> real) \<Rightarrow> 'a \<Rightarrow> 'a list \<Rightarrow> 'a list" where
  "pinsert f x [] = [x]"
| "pinsert f x (y # ys) = (if f x y \<le> 0 then x # y # ys else y # pinsert f x ys)"

fun psort :: "('a \<Rightarrow> 'a \<Rightarrow> real) \<Rightarrow> 'a list \<Rightarrow> 'a list" where
  "psort f [] = []"
| "psort f (x # xs) = pinsert f x (psort f xs)"

text \<open>
  The number the ascending comparator for key \<open>k\<close> returns. The comparator is consistent
  on a set of movies when it returns a number for each pair, \<open>a\<close> sorts before \<open>b\<close>
  exactly when \<open>b\<close> sorts after \<open>a\<close>, and not-after is transitive; this is what the
  language asks of a comparator for the sort order to be defined. Two movies tie when
  the comparator returns \<open>0\<close> for them.
\<close>

definition cmpVal :: "platform \<Rightarrow> string \<Rightarrow> jsval \<Rightarrow> jsval \<Rightarrow> real" where
  "cmpVal P k a b = (case compareMovies P k ''asc'' a b of Inr (Some r) \<Rightarrow> r | _ \<Rightarrow> 0)"

definition consistentOn :: "jsval set \<Rightarrow> platform \<Rightarrow> string \<Rightarrow> bool" where
  "consistentOn S P k =
     (\<forall>a\<in>S. \<forall>b\<in>S.
        (\<exists>r. compareMovies P k ''asc'' a b = Inr (Some r)) \<and>
        ((cmpVal P k a b < 0) = (0 < cmpVal P k b a)) \<and>
        (\<forall>c\<in>S. cmpVal P k a b \<le> 0 \<and> cmpVal P k b c \<le> 0 \<longrightarrow> cmpVal P k a c \<le> 0))"

definition noTies :: "jsval set \<Rightarrow> platform \<Rightarrow> string \<Rightarrow> bool" where
  "noTies S P k = (\<forall>a\<in>S. \<forall>b\<in>S. cmpVal P k a b = 0 \<longrightarrow> a = b)"

text \<open>The same consistency for a comparator given as a function into the reals.\<close>

definition consistent :: "'a set \<Rightarrow> ('a \<Rightarrow> 'a \<Rightarrow> real) \<Rightarrow> bool" where
  "consistent S f =
     (\<forall>a\<in>S. \<forall>b\<in>S. ((f a b < 0) = (0 < f b a)) \<and>
        (\<forall>c\<in>S. f a b \<le> 0 \<and> f b c \<le> 0 \<longrightarrow> f a c \<le> 0))"

text \<open>A state that sorts by year, ascending.\<close>

definition byYear :: ui_state where
  "byYear = \<lparr>searchTerm = [], filterGenre = ''all'', sortBy = ''year'', sortOrder = ''asc''\<rparr>"

definition twins :: jsval where
  "twins = JArr [JObj [(''_id'', JStr ''a''), (''releaseYear'', JNum 2000)],
                 JObj [(''_id'', JStr ''b''), (''releaseYear'', JNum 2000)]]"


definition nullish :: "jsval \<Rightarrow> bool" where
  "nullish v = (v = JNull \<or> v = JUndefined)"



subsection \<open>Example stores and requests\<close>

text \<open>
  A store for examples. Its cursor behaves as the database documents: \<open>skip\<close> rejects a
  negative number (and, here, NaN and fractions), \<open>limit(0)\<close> sets no limit, and a
  negative limit counts with its absolute value (NaN is rejected here). The sort
  \<open>-createdAt\<close> is insertion order reversed, every other sort insertion order. The cast
  reads plain decimal numerals, a text search finds nothing, and the aggregation selects
  the documents that \<open>find\<close> selects.
\<close>

definition mongoSkip :: "real option \<Rightarrow> 'a list \<Rightarrow> 'a list option" where
  "mongoSkip v xs =
     (case v of
        None \<Rightarrow> None
      | Some r \<Rightarrow> if r < 0 \<or> r \<noteq> of_int \<lfloor>r\<rfloor> then None else Some (drop (nat \<lfloor>r\<rfloor>) xs))"

definition mongoLimit :: "int option \<Rightarrow> 'a list \<Rightarrow> 'a list option" where
  "mongoLimit v xs =
     (case v of
        None \<Rightarrow> None
      | Some n \<Rightarrow> Some (if n = 0 then xs else take (nat \<bar>n\<bar>) xs))"

definition baseStore :: store where
  "baseStore =
     \<lparr>sortDocs = (\<lambda>s ms. if s = ''-createdAt'' then rev ms else ms),
      textSearch = (\<lambda>t m. False),
      castNumber = (\<lambda>s. map_option real (decimal s)),
      skipCursor = mongoSkip,
      limitCursor = mongoLimit,
      aggregateMatch = (\<lambda>q m. False)\<rparr>"

definition plainStore :: store where
  "plainStore = baseStore\<lparr>aggregateMatch := matches baseStore\<rparr>"

definition film :: "string \<Rightarrow> string \<Rightarrow> int \<Rightarrow> movie_doc" where
  "film i u d =
     \<lparr>m_id = i, addedBy = u, title = i, year = 2000, genres = [''Drama''], duration = d,
      rating = 0, watched = False, watchDate = None\<rparr>"

definition fifteen :: "movie_doc list" where
  "fifteen = map (\<lambda>i. film i ''u1'' 90)
     [''01'', ''02'', ''03'', ''04'', ''05'', ''06'', ''07'', ''08'', ''09'', ''10'',
      ''11'', ''12'', ''13'', ''14'', ''15'']"

definition noParams :: list_params where
  "noParams = \<lparr>p_page = None, p_limit = None, p_sort = None, p_genre = None, p_year = None,
               p_search = None, p_watched = None\<rparr>"

text \<open>The data of a successful reply.\<close>

definition replyData :: "'a reply \<Rightarrow> 'a option" where
  "replyData r = (case r of Ok c d \<Rightarrow> Some d | _ \<Rightarrow> None)"

subsection \<open>Pagination in the words of the specification\<close>

text \<open>
  The predicate of a list request: the movie is owned by the requesting user, and it
  satisfies each of the optional clauses that is given (and not empty): it has the genre,
  its year is the number given, its watched flag is the one given (the string \<open>true\<close>
  meaning watched, any other string unwatched), the text search finds it.
\<close>

definition selects :: "store \<Rightarrow> string \<Rightarrow> list_params \<Rightarrow> movie_doc \<Rightarrow> bool" where
  "selects S uid ps m =
     (addedBy m = uid \<and>
      (\<forall>g. p_genre ps = Some g \<and> g \<noteq> [] \<longrightarrow> g \<in> set (genres m)) \<and>
      (\<forall>y. p_year ps = Some y \<and> y \<noteq> [] \<longrightarrow> castNumber S y = Some (real_of_int (year m))) \<and>
      (\<forall>w. p_watched ps = Some w \<longrightarrow> watched m = (w = ''true'')) \<and>
      (\<forall>t. p_search ps = Some t \<and> t \<noteq> [] \<longrightarrow> textSearch S t m))"

text \<open>
  A parameter reads as the integer \<open>n\<close> when it is absent and \<open>n\<close> is its default, or
  it is a string that both \<open>ToNumber\<close> and \<open>parseInt\<close> take to \<open>n\<close>.
\<close>

definition reads :: "platform \<Rightarrow> string option \<Rightarrow> int \<Rightarrow> int \<Rightarrow> bool" where
  "reads P v d n =
     (case v of
        None \<Rightarrow> n = d
      | Some s \<Rightarrow> toNumberJS P (JStr s) = Some (real_of_int n) \<and> parseIntJS P s = Some n)"

text \<open>
  What is assumed of the database's cursor: \<open>skip(n)\<close> leaves out the first \<open>n\<close>
  documents, and \<open>limit(n)\<close> keeps the first \<open>n\<close> for a positive \<open>n\<close>.
\<close>

definition cursorAsDocumented :: "store \<Rightarrow> bool" where
  "cursorAsDocumented S =
     ((\<forall>n xs. skipCursor S (Some (real n)) xs = Some (drop n xs)) \<and>
      (\<forall>n xs. 0 < n \<longrightarrow> limitCursor S (Some (int n)) xs = Some (take n xs)))"

text \<open>The year parameter, when given, can be cast.\<close>

definition yearCastable :: "store \<Rightarrow> list_params \<Rightarrow> bool" where
  "yearCastable S ps =
     (case p_year ps of None \<Rightarrow> True | Some y \<Rightarrow> y = [] \<or> castNumber S y \<noteq> None)"

text \<open>The documents of a collection that belong to users other than \<open>uid\<close>.\<close>

definition others :: "string \<Rightarrow> movie_doc list \<Rightarrow> movie_doc list" where
  "others uid ms = filter (\<lambda>m. addedBy m \<noteq> uid) ms"

text \<open>A store with two users and their movies.\<close>

definition twoUsers :: db where
  "twoUsers =
     \<lparr>movies = [film ''m1'' ''u1'' 90, film ''m2'' ''u2'' 100, film ''m3'' ''u1'' 110],
      users = [''u1'' \<mapsto> \<lparr>movieCount = 2, totalWatchTime = 200, watchlist = [''m2'']\<rparr>,
               ''u2'' \<mapsto> \<lparr>movieCount = 1, totalWatchTime = 100, watchlist = []\<rparr>]\<rparr>"

text \<open>
  What is assumed of the aggregation: its \<open>$match\<close>, which receives the filter without
  the schema's cast, selects only documents that satisfy the filter.
\<close>

definition aggregateWithinFilter :: "store \<Rightarrow> bool" where
  "aggregateWithinFilter S = (\<forall>q m. aggregateMatch S q m \<longrightarrow> matches S q m)"

text \<open>A store with one user, who owns nothing and has an empty watchlist.\<close>

definition oneUser :: db where
  "oneUser =
     \<lparr>movies = [],
      users = [''u1'' \<mapsto> \<lparr>movieCount = 0, totalWatchTime = 0, watchlist = []\<rparr>]\<rparr>"

text \<open>The store after \<open>u1\<close> has created a movie of 100 minutes and set its duration to 50.\<close>

definition afterUpdate :: db where
  "afterUpdate =
     snd (updateMovie plainStore ''u1'' [] ''m1'' (\<lambda>m. m\<lparr>duration := 50\<rparr>)
            (snd (createMovie ''u1'' [] (film [] [] 100) ''m1'' oneUser None)) None)"

section \<open>Properties\<close>

subsection \<open>Client: filtering\<close>

lemma field_ownProp: "field m k = (case ownProp m k of None \<Rightarrow> JUndefined | Some v \<Rightarrow> v)"
  by (cases m) (simp_all add: ownProp_def)

lemma truthy_falsy: "truthy v = (\<not> falsy v)"
  by (cases v) (auto simp: falsy_def)

lemma object_iff: "(truthy m \<and> typeof m = ''object'') = isObject m"
  by (cases m) (simp_all add: isObject_def)

lemma includes_lower_iff:
  "includesStr (toLowerCaseJS P t) (toLowerCaseJS P s) = ciSubstring P s t"
  by (simp add: includesStr_def ciSubstring_def sublist_def)

lemma orElse_textual:
  "textual m k \<Longrightarrow> orElse (field m k) (JStr []) = JStr (textAt m k)"
  by (auto simp: textual_def textAt_def field_ownProp orElse_def truthy_falsy falsy_def
      split: option.splits jsval.splits)

lemma orElse_genre: "(orElse (field m ''genre'') (JStr []) = JStr g) = genreIs m g"
  by (auto simp: genreIs_def field_ownProp orElse_def truthy_falsy falsy_def
      split: option.splits jsval.splits)

lemma matchesSearch_text:
  "matchesSearch P s (JStr n) (JStr d) = Inr (s = [] \<or> ciSubstring P s n \<or> ciSubstring P s d)"
  by (simp add: matchesSearch_def toLowerCase_def includes_lower_iff)

lemma movieFilter_shown:
  assumes "textual m ''name''" and "textual m ''description''"
  shows "movieFilter P s g m = Inr (shown P s g m)"
proof (cases "isObject m")
  case False
  then show ?thesis
    using object_iff[of m] by (auto simp: movieFilter_def shown_def)
next
  case True
  then have "truthy m" "typeof m = ''object''" using object_iff[of m] by auto
  with True assms show ?thesis
    by (simp add: movieFilter_def shown_def orElse_textual orElse_genre matchesSearch_text Let_def)
qed

lemma filterE_pure:
  "\<forall>x\<in>set xs. p x = Inr (q x) \<Longrightarrow> filterE p xs = Inr (filter q xs)"
  by (induction xs) auto

lemma filtered_shown:
  assumes "\<forall>m\<in>set ms. textual m ''name'' \<and> textual m ''description''"
  shows "filtered P ms s g = Inr (filter (shown P s g) ms)"
  unfolding filtered_def using assms by (intro filterE_pure) (simp add: movieFilter_shown)

subsection \<open>Client: sorting\<close>

lemma mset_pinsert: "mset (pinsert f x ys) = add_mset x (mset ys)"
  by (induction ys) auto

lemma mset_psort: "mset (psort f xs) = mset xs"
  by (induction xs) (auto simp: mset_pinsert)

lemma set_pinsert: "set (pinsert f x ys) = insert x (set ys)"
  by (metis mset_pinsert set_mset_add_mset_insert set_mset_mset)

lemma set_psort: "set (psort f xs) = set xs"
  by (metis mset_psort set_mset_mset)

lemma insertE_pure:
  "\<forall>y\<in>set ys. cmp x y = Inr (Some (f x y)) \<Longrightarrow> insertE cmp x ys = Inr (pinsert f x ys)"
  by (induction ys) (auto simp: sortCompare_def)

lemma arraySort_pure:
  "\<forall>a\<in>set xs. \<forall>b\<in>set xs. cmp a b = Inr (Some (f a b)) \<Longrightarrow> arraySort cmp xs = Inr (psort f xs)"
proof (induction xs)
  case Nil
  then show ?case by simp
next
  case (Cons x xs)
  then have "arraySort cmp xs = Inr (psort f xs)" by simp
  moreover have "insertE cmp x (psort f xs) = Inr (pinsert f x (psort f xs))"
    using Cons.prems by (intro insertE_pure) (simp add: set_psort)
  ultimately show ?case by simp
qed

lemma insertE_mset: "insertE cmp x ys = Inr r \<Longrightarrow> mset r = add_mset x (mset ys)"
  by (induction ys arbitrary: r) (auto split: sum.splits if_splits)

lemma arraySort_mset: "arraySort cmp xs = Inr r \<Longrightarrow> mset r = mset xs"
  by (induction xs arbitrary: r) (auto split: sum.splits dest: insertE_mset)

lemma insertE_total:
  "\<forall>y\<in>set ys. \<exists>v. cmp x y = Inr v \<Longrightarrow> \<exists>r. insertE cmp x ys = Inr r"
  by (induction ys) (auto split: sum.splits)

lemma arraySort_total:
  "\<forall>a\<in>set xs. \<forall>b\<in>set xs. \<exists>v. cmp a b = Inr v \<Longrightarrow> \<exists>r. arraySort cmp xs = Inr r"
proof (induction xs)
  case Nil
  then show ?case by simp
next
  case (Cons x xs)
  then obtain r where r: "arraySort cmp xs = Inr r" by auto
  then have "set r = set xs" by (metis arraySort_mset set_mset_mset)
  with Cons.prems have "\<exists>r'. insertE cmp x r = Inr r'"
    by (intro insertE_total) simp
  with r show ?case by auto
qed

lemma sorted_pinsert:
  assumes "consistent S f" "x \<in> S" "set ys \<subseteq> S" "sorted_wrt (\<lambda>a b. f a b \<le> 0) ys"
  shows "sorted_wrt (\<lambda>a b. f a b \<le> 0) (pinsert f x ys)"
  using assms(3,4)
proof (induction ys)
  case Nil
  then show ?case by simp
next
  case (Cons y ys)
  show ?case
  proof (cases "f x y \<le> 0")
    case True
    have "\<forall>z\<in>set ys. f x z \<le> 0"
    proof
      fix z assume z: "z \<in> set ys"
      with Cons.prems have "f y z \<le> 0" "z \<in> S" "y \<in> S" by auto
      with True assms(1,2) show "f x z \<le> 0" unfolding consistent_def by blast
    qed
    with True Cons.prems show ?thesis by simp
  next
    case False
    with assms(1,2) Cons.prems have "f y x \<le> 0"
      unfolding consistent_def by (metis insert_subset list.simps(15) not_le less_imp_le)
    with False Cons show ?thesis by (auto simp: set_pinsert)
  qed
qed

lemma sorted_psort:
  assumes "consistent S f" "set xs \<subseteq> S"
  shows "sorted_wrt (\<lambda>a b. f a b \<le> 0) (psort f xs)"
  using assms(2)
  by (induction xs) (auto intro!: sorted_pinsert[OF assms(1)] simp: set_psort)

lemma sorted_wrt_unique:
  assumes "sorted_wrt R xs" "sorted_wrt R ys" "mset xs = mset ys"
    and "\<forall>a\<in>set xs. \<forall>b\<in>set xs. R a b \<and> R b a \<longrightarrow> a = b"
  shows "xs = ys"
  using assms
proof (induction xs arbitrary: ys)
  case Nil
  then show ?case by simp
next
  case (Cons x xs)
  then obtain y ys' where ys: "ys = y # ys'" by (cases ys) auto
  have sets: "set (x # xs) = set ys" using Cons.prems(3) by (metis set_mset_mset)
  have "x = y"
  proof (rule ccontr)
    assume ne: "x \<noteq> y"
    with sets ys have "x \<in> set ys'" "y \<in> set xs" by auto
    with Cons.prems(1,2) ys have "R y x" "R x y" by auto
    with Cons.prems(4) \<open>y \<in> set xs\<close> have "x = y" by auto
    with ne show False by simp
  qed
  with Cons.prems ys have "xs = ys'" by (intro Cons.IH) auto
  with \<open>x = y\<close> ys show ?case by simp
qed

lemma consistent_neg:
  assumes "consistent S f"
  shows "consistent S (\<lambda>a b. - f a b)"
  unfolding consistent_def
proof (intro ballI conjI impI)
  fix a b assume "a \<in> S" "b \<in> S"
  with assms show "(- f a b < 0) = (0 < - f b a)"
    unfolding consistent_def by (metis neg_less_0_iff_less neg_0_less_iff_less)
next
  fix a b c assume in_S: "a \<in> S" "b \<in> S" "c \<in> S" and "- f a b \<le> 0 \<and> - f b c \<le> 0"
  then have ab: "0 \<le> f a b" and bc: "0 \<le> f b c" by auto
  have flip: "\<And>u v. u \<in> S \<Longrightarrow> v \<in> S \<Longrightarrow> 0 \<le> f u v \<Longrightarrow> f v u \<le> 0"
    using assms unfolding consistent_def by (metis not_le)
  have flip': "\<And>u v. u \<in> S \<Longrightarrow> v \<in> S \<Longrightarrow> f u v \<le> 0 \<Longrightarrow> 0 \<le> f v u"
    using assms unfolding consistent_def by (metis not_le)
  from ab bc in_S have "f b a \<le> 0" "f c b \<le> 0" by (auto intro: flip)
  with assms in_S have "f c a \<le> 0" unfolding consistent_def by blast
  with in_S have "0 \<le> f a c" by (auto intro: flip')
  then show "- f a c \<le> 0" by simp
qed

lemma psort_neg_rev:
  assumes c: "consistent (set xs) f"
    and nt: "\<forall>a\<in>set xs. \<forall>b\<in>set xs. f a b = 0 \<longrightarrow> a = b"
  shows "psort (\<lambda>a b. - f a b) xs = rev (psort f xs)"
proof (rule sorted_wrt_unique[where R = "\<lambda>a b. a \<in> set xs \<and> b \<in> set xs \<and> 0 \<le> f a b"])
  have "sorted_wrt (\<lambda>a b. - f a b \<le> 0) (psort (\<lambda>a b. - f a b) xs)"
    by (rule sorted_psort[OF consistent_neg[OF c]]) simp
  then show "sorted_wrt (\<lambda>a b. a \<in> set xs \<and> b \<in> set xs \<and> 0 \<le> f a b) (psort (\<lambda>a b. - f a b) xs)"
    by (rule sorted_wrt_mono_rel[rotated]) (simp add: set_psort)
  have flip: "\<And>u v. u \<in> set xs \<Longrightarrow> v \<in> set xs \<Longrightarrow> f u v \<le> 0 \<Longrightarrow> 0 \<le> f v u"
    using c unfolding consistent_def by (metis not_le)
  have "sorted_wrt (\<lambda>a b. f a b \<le> 0) (psort f xs)"
    by (rule sorted_psort[OF c]) simp
  then have "sorted_wrt (\<lambda>a b. f b a \<le> 0) (rev (psort f xs))"
    by (simp add: sorted_wrt_rev)
  then show "sorted_wrt (\<lambda>a b. a \<in> set xs \<and> b \<in> set xs \<and> 0 \<le> f a b) (rev (psort f xs))"
    by (rule sorted_wrt_mono_rel[rotated]) (auto simp: set_psort intro: flip)
  show "mset (psort (\<lambda>a b. - f a b) xs) = mset (rev (psort f xs))"
    by (simp add: mset_psort)
  have flip2: "\<And>u v. u \<in> set xs \<Longrightarrow> v \<in> set xs \<Longrightarrow> 0 \<le> f u v \<Longrightarrow> f v u \<le> 0"
    using c unfolding consistent_def by (metis not_le)
  show "\<forall>a\<in>set (psort (\<lambda>a b. - f a b) xs). \<forall>b\<in>set (psort (\<lambda>a b. - f a b) xs).
          (a \<in> set xs \<and> b \<in> set xs \<and> 0 \<le> f a b) \<and> (b \<in> set xs \<and> a \<in> set xs \<and> 0 \<le> f b a) \<longrightarrow> a = b"
  proof (intro ballI impI)
    fix a b assume "a \<in> set (psort (\<lambda>a b. - f a b) xs)" "b \<in> set (psort (\<lambda>a b. - f a b) xs)"
      and h: "(a \<in> set xs \<and> b \<in> set xs \<and> 0 \<le> f a b) \<and> (b \<in> set xs \<and> a \<in> set xs \<and> 0 \<le> f b a)"
    then have "f a b \<le> 0" using flip2[of b a] by auto
    with h have "f a b = 0" by auto
    with nt h show "a = b" by auto
  qed
qed

text \<open>Stability: the movies that tie with a given one keep their order.\<close>

lemma filter_pinsert_ties:
  assumes "consistent S f" "a \<in> S" "x \<in> S" "set ys \<subseteq> S"
  shows "filter (\<lambda>b. f a b = 0) (pinsert f x ys) = filter (\<lambda>b. f a b = 0) (x # ys)"
  using assms(4)
proof (induction ys)
  case Nil
  then show ?case by simp
next
  case (Cons y ys)
  show ?case
  proof (cases "f x y \<le> 0")
    case True
    then show ?thesis by simp
  next
    case False
    have not_both: "\<not> (f a x = 0 \<and> f a y = 0)"
    proof
      assume h: "f a x = 0 \<and> f a y = 0"
      from Cons.prems have yS: "y \<in> S" by simp
      from h assms(1,2,3) have "f x a \<le> 0"
        unfolding consistent_def by (metis less_irrefl not_le)
      moreover from h have "f a y \<le> 0" by simp
      ultimately have "f x y \<le> 0"
        using assms(1,2,3) yS unfolding consistent_def by blast
      with False show False by simp
    qed
    from Cons have IH: "filter (\<lambda>b. f a b = 0) (pinsert f x ys) = filter (\<lambda>b. f a b = 0) (x # ys)"
      by simp
    from False have "filter (\<lambda>b. f a b = 0) (pinsert f x (y # ys))
        = filter (\<lambda>b. f a b = 0) (y # pinsert f x ys)" by simp
    also have "\<dots> = filter (\<lambda>b. f a b = 0) [y] @ filter (\<lambda>b. f a b = 0) (x # ys)"
      using IH by simp
    also have "\<dots> = filter (\<lambda>b. f a b = 0) (x # y # ys)"
      using not_both by auto
    finally show ?thesis .
  qed
qed

lemma filter_psort_ties:
  assumes "consistent S f" "a \<in> S" "set xs \<subseteq> S"
  shows "filter (\<lambda>b. f a b = 0) (psort f xs) = filter (\<lambda>b. f a b = 0) xs"
  using assms(3)
proof (induction xs)
  case Nil
  then show ?case by simp
next
  case (Cons x xs)
  then have "filter (\<lambda>b. f a b = 0) (pinsert f x (psort f xs))
      = filter (\<lambda>b. f a b = 0) (x # psort f xs)"
    by (intro filter_pinsert_ties[OF assms(1,2)]) (auto simp: set_psort)
  with Cons show ?case by simp
qed

lemma compareMovies_total:
  assumes "sortBy' \<noteq> ''name'' \<or> textual a ''name''"
  shows "\<exists>v. compareMovies P sortBy' ord a b = Inr v"
proof (cases "sortBy' = ''name''")
  case True
  with assms have "textual a ''name''" by simp
  then have "orElse (field a ''name'') (JStr []) = JStr (textAt a ''name'')"
    by (rule orElse_textual)
  with True show ?thesis
    by (simp add: compareMovies_def callLocaleCompare_def Let_def)
next
  case False
  then show ?thesis by (simp add: compareMovies_def Let_def)
qed

text \<open>
  Claim C1, amended. When every entry's name and description is a string or missing, the
  filter does not throw, and it keeps exactly the entries that are objects and for which
  the search term is empty or a case-insensitive substring of the name or of the
  description, and the genre filter is \<open>all\<close> or equals the genre; a missing name,
  description or genre counts as the empty string. The rendered list holds the same
  entries, as often as the filter kept them, for every sort key and direction.
\<close>

theorem filter_includes_exactly:
  assumes "\<forall>m\<in>set ms. textual m ''name'' \<and> textual m ''description''"
  shows "filtered P ms s g = Inr (filter (shown P s g) ms) \<and>
         (\<exists>r. filteredAndSortedMovies P (JArr ms) s g k ord = Inr r \<and>
               mset r = mset (filter (shown P s g) ms))"
proof -
  let ?fs = "filter (shown P s g) ms"
  have f: "filtered P ms s g = Inr ?fs" using assms by (rule filtered_shown)
  have "\<forall>a\<in>set ?fs. \<forall>b\<in>set ?fs. \<exists>v. compareMovies P k ord a b = Inr v"
    using assms by (auto intro!: compareMovies_total)
  then obtain r where r: "arraySort (compareMovies P k ord) ?fs = Inr r"
    using arraySort_total by blast
  then have m: "mset r = mset ?fs" by (rule arraySort_mset)
  have "filteredAndSortedMovies P (JArr ms) s g k ord = Inr r"
  proof (cases "ms = []")
    case True
    with r show ?thesis by (simp add: filteredAndSortedMovies_def)
  next
    case False
    with f r show ?thesis by (simp add: filteredAndSortedMovies_def)
  qed
  with f m show ?thesis by blast
qed

text \<open>
  An instance of the theorem, with a \<open>null\<close> entry, two movies without description
  and genre, and one with both: the term \<open>dUn\<close> finds Dune by its name and Sands by its
  description; with the genre filter \<open>Sci-Fi\<close> only Sands remains.
\<close>

theorem filter_includes_exactly_witness:
  "filtered codePlatform [dune, JNull, arrival, sands] ''dUn'' ''all'' = Inr [dune, sands] \<and>
   filtered codePlatform [dune, JNull, arrival, sands] ''dUn'' ''Sci-Fi'' = Inr [sands] \<and>
   filter (shown codePlatform ''dUn'' ''all'') [dune, JNull, arrival, sands] = [dune, sands] \<and>
   filter (shown codePlatform ''dUn'' ''Sci-Fi'') [dune, JNull, arrival, sands] = [sands]"
proof -
  have h: "\<forall>m\<in>set [dune, JNull, arrival, sands]. textual m ''name'' \<and> textual m ''description''"
    by (simp add: dune_def arrival_def sands_def textual_def ownProp_def)
  have e1: "filtered codePlatform [dune, JNull, arrival, sands] ''dUn'' ''all'' = Inr [dune, sands]"
    by (simp add: filtered_def movieFilter_def matchesSearch_def toLowerCase_def dune_def
        arrival_def sands_def orElse_def codePlatform_def asciiLower_def includesStr_def
        sublist_Cons_right)
  have e2: "filtered codePlatform [dune, JNull, arrival, sands] ''dUn'' ''Sci-Fi'' = Inr [sands]"
    by (simp add: filtered_def movieFilter_def matchesSearch_def toLowerCase_def dune_def
        arrival_def sands_def orElse_def codePlatform_def asciiLower_def includesStr_def
        sublist_Cons_right)
  from filter_includes_exactly[OF h, of codePlatform "''dUn''" "''all''"] e1
  have 1: "filter (shown codePlatform ''dUn'' ''all'') [dune, JNull, arrival, sands] = [dune, sands]"
    by simp
  from filter_includes_exactly[OF h, of codePlatform "''dUn''" "''Sci-Fi''"] e2
  have 2: "filter (shown codePlatform ''dUn'' ''Sci-Fi'') [dune, JNull, arrival, sands] = [sands]"
    by simp
  from e1 e2 1 2 show ?thesis by simp
qed

text \<open>
  Claim C1 as stated fails: with a non-empty search term, a movie whose name is \<open>true\<close>
  makes the filter throw, and so does a movie whose name is missing and whose description
  is a number.
\<close>

theorem filter_throws_counterexample:
  "filtered codePlatform [JObj [(''name'', JBool True)]] ''a'' ''all'' = Inl TypeError \<and>
   filtered codePlatform [JObj [(''description'', JNum 42)]] ''a'' ''all'' = Inl TypeError"
  by (simp add: filtered_def movieFilter_def matchesSearch_def toLowerCase_def orElse_def
      codePlatform_def includesStr_def)

subsection \<open>Client: the sort toggle\<close>

lemma compareMovies_desc:
  "compareMovies P k ''asc'' a b = Inr (Some r) \<Longrightarrow> compareMovies P k ''desc'' a b = Inr (Some (- r))"
  by (auto simp: compareMovies_def Let_def split: sum.splits)

lemma consistentOn_consistent: "consistentOn S P k \<Longrightarrow> consistent S (cmpVal P k)"
  unfolding consistentOn_def consistent_def by blast

lemma consistentOn_asc:
  "consistentOn S P k \<Longrightarrow> a \<in> S \<Longrightarrow> b \<in> S \<Longrightarrow> compareMovies P k ''asc'' a b = Inr (Some (cmpVal P k a b))"
  unfolding consistentOn_def cmpVal_def by fastforce

text \<open>
  Claim C2, amended. Let the comparator for the active key \<open>k\<close> be consistent on the
  visible movies. Pressing the sort button of \<open>k\<close> in ascending state shows the same
  movies in descending order of \<open>k\<close>, the movies that tie under \<open>k\<close> in the same order
  among themselves as in the ascending list; so it shows the reverse of the ascending
  list when no two different visible movies tie. In every state, pressing the button of
  a key that is not active makes that key active and the direction ascending, and
  pressing the button of the active key flips the direction.
\<close>

theorem sort_toggle_descending_stable:
  "(sortBy st = k \<and> sortOrder st = ''asc'' \<and> view P C st = Inr xs \<and> consistentOn (set xs) P k
      \<longrightarrow> (\<exists>ys. view P C (handleSort k st) = Inr ys \<and>
            mset ys = mset xs \<and>
            sorted_wrt (\<lambda>a b. cmpVal P k a b \<le> 0) xs \<and>
            sorted_wrt (\<lambda>a b. 0 \<le> cmpVal P k a b) ys \<and>
            (\<forall>a\<in>set xs. filter (\<lambda>b. cmpVal P k a b = 0) ys = filter (\<lambda>b. cmpVal P k a b = 0) xs) \<and>
            (noTies (set xs) P k \<longrightarrow> ys = rev xs))) \<and>
   (\<forall>s fld. fld \<noteq> sortBy s \<longrightarrow> handleSort fld s = s\<lparr>sortBy := fld, sortOrder := ''asc''\<rparr>) \<and>
   (\<forall>s. handleSort (sortBy s) s =
        s\<lparr>sortOrder := (if sortOrder s = ''asc'' then ''desc'' else ''asc'')\<rparr>)"
proof (intro conjI impI)
  assume h: "sortBy st = k \<and> sortOrder st = ''asc'' \<and> view P C st = Inr xs \<and> consistentOn (set xs) P k"
  then have k: "sortBy st = k" and asc: "sortOrder st = ''asc''"
    and v: "view P C st = Inr xs" and c: "consistentOn (set xs) P k"
    by simp_all
  have hs: "handleSort k st = st\<lparr>sortOrder := ''desc''\<rparr>"
    using k asc by (simp add: handleSort_def)
  let ?f = "cmpVal P k"
  let ?g = "\<lambda>a b. - cmpVal P k a b"
  show "\<exists>ys. view P C (handleSort k st) = Inr ys \<and>
            mset ys = mset xs \<and>
            sorted_wrt (\<lambda>a b. ?f a b \<le> 0) xs \<and>
            sorted_wrt (\<lambda>a b. 0 \<le> ?f a b) ys \<and>
            (\<forall>a\<in>set xs. filter (\<lambda>b. ?f a b = 0) ys = filter (\<lambda>b. ?f a b = 0) xs) \<and>
            (noTies (set xs) P k \<longrightarrow> ys = rev xs)"
  proof (cases "\<exists>ms. C = JArr ms \<and> ms \<noteq> []")
    case False
    then have "\<And>st'. view P C st' = Inr []"
      by (cases C) (auto simp: view_def filteredAndSortedMovies_def)
    with v show ?thesis by simp
  next
    case True
    then obtain ms where C: "C = JArr ms" "ms \<noteq> []" by blast
    let ?s = "searchTerm st" and ?t = "filterGenre st"
    from v C k asc obtain fs where fs: "filtered P ms ?s ?t = Inr fs"
      and srt: "arraySort (compareMovies P k ''asc'') fs = Inr xs"
      by (auto simp: view_def filteredAndSortedMovies_def split: sum.splits)
    from srt have "mset xs = mset fs" by (rule arraySort_mset)
    then have sets: "set fs = set xs" by (metis set_mset_mset)
    have cf: "consistent (set fs) ?f" using c sets by (simp add: consistentOn_consistent)
    then have cg: "consistent (set fs) ?g" by (rule consistent_neg)
    have "arraySort (compareMovies P k ''asc'') fs = Inr (psort ?f fs)"
      using c sets by (intro arraySort_pure) (simp add: consistentOn_asc)
    with srt have xs: "xs = psort ?f fs" by simp
    let ?ys = "psort ?g fs"
    have "arraySort (compareMovies P k ''desc'') fs = Inr ?ys"
      using c sets by (intro arraySort_pure) (simp add: consistentOn_asc compareMovies_desc)
    with fs C k have 1: "view P C (handleSort k st) = Inr ?ys"
      by (simp add: hs view_def filteredAndSortedMovies_def)
    have 2: "mset ?ys = mset xs" by (simp add: xs mset_psort)
    have 3: "sorted_wrt (\<lambda>a b. ?f a b \<le> 0) xs"
      unfolding xs by (rule sorted_psort[OF cf]) simp
    have "sorted_wrt (\<lambda>a b. ?g a b \<le> 0) ?ys"
      by (rule sorted_psort[OF cg]) simp
    then have 4: "sorted_wrt (\<lambda>a b. 0 \<le> ?f a b) ?ys" by simp
    have 5: "\<forall>a\<in>set xs. filter (\<lambda>b. ?f a b = 0) ?ys = filter (\<lambda>b. ?f a b = 0) xs"
    proof
      fix a assume "a \<in> set xs"
      then have a: "a \<in> set fs" using sets by simp
      have "filter (\<lambda>b. ?g a b = 0) ?ys = filter (\<lambda>b. ?g a b = 0) fs"
        by (rule filter_psort_ties[OF cg a]) simp
      moreover have "filter (\<lambda>b. ?f a b = 0) xs = filter (\<lambda>b. ?f a b = 0) fs"
        unfolding xs by (rule filter_psort_ties[OF cf a]) simp
      ultimately show "filter (\<lambda>b. ?f a b = 0) ?ys = filter (\<lambda>b. ?f a b = 0) xs" by simp
    qed
    have 6: "noTies (set xs) P k \<longrightarrow> ?ys = rev xs"
    proof
      assume "noTies (set xs) P k"
      then have "\<forall>a\<in>set fs. \<forall>b\<in>set fs. ?f a b = 0 \<longrightarrow> a = b"
        using sets by (simp add: noTies_def)
      with cf have "?ys = rev (psort ?f fs)" by (rule psort_neg_rev)
      then show "?ys = rev xs" by (simp add: xs)
    qed
    from 1 2 3 4 5 6 show ?thesis by blast
  qed
next
  show "\<forall>s fld. fld \<noteq> sortBy s \<longrightarrow> handleSort fld s = s\<lparr>sortBy := fld, sortOrder := ''asc''\<rparr>"
    by (simp add: handleSort_def)
next
  show "\<forall>s. handleSort (sortBy s) s =
              s\<lparr>sortOrder := (if sortOrder s = ''asc'' then ''desc'' else ''asc'')\<rparr>"
    by (simp add: handleSort_def)
qed

text \<open>
  Claim C2 as stated fails where two movies tie: the sort is stable in both directions, so
  two movies of the same year keep their order when the direction is toggled.
\<close>

theorem sort_toggle_reverse_counterexample:
  "view codePlatform twins (initialState\<lparr>sortBy := ''year''\<rparr>) =
     Inr [JObj [(''_id'', JStr ''a''), (''releaseYear'', JNum 2000)],
          JObj [(''_id'', JStr ''b''), (''releaseYear'', JNum 2000)]] \<and>
   view codePlatform twins (handleSort ''year'' (initialState\<lparr>sortBy := ''year''\<rparr>)) \<noteq>
     Inr (rev [JObj [(''_id'', JStr ''a''), (''releaseYear'', JNum 2000)],
               JObj [(''_id'', JStr ''b''), (''releaseYear'', JNum 2000)]])"
  by (simp add: view_def initialState_def handleSort_def twins_def filteredAndSortedMovies_def
      filtered_def movieFilter_def matchesSearch_def orElse_def compareMovies_def jsMinus_def
      toNumber_def sortCompare_def)

text \<open>
  An instance: Dune (2021), Arrival (2016) and Sands (2016) by year. Arrival and Sands
  tie and keep their order in both directions; without Sands the toggled list is the
  reverse of the ascending one. Pressing the name button in the descending state leads to
  the initial state (by name, ascending). The views by name and by rating are shown too.
\<close>

theorem sort_toggle_descending_stable_witness:
  "view codePlatform (JArr [dune, arrival, sands]) byYear = Inr [arrival, sands, dune] \<and>
   consistentOn (set [arrival, sands, dune]) codePlatform ''year'' \<and>
   view codePlatform (JArr [dune, arrival, sands]) (handleSort ''year'' byYear)
     = Inr [dune, arrival, sands] \<and>
   view codePlatform (JArr [dune, arrival]) byYear = Inr [arrival, dune] \<and>
   noTies (set [arrival, dune]) codePlatform ''year'' \<and>
   view codePlatform (JArr [dune, arrival]) (handleSort ''year'' byYear) = Inr [dune, arrival] \<and>
   handleSort ''name'' (handleSort ''year'' byYear) = initialState \<and>
   view codePlatform (JArr [dune, arrival, sands]) initialState = Inr [arrival, dune, sands] \<and>
   view codePlatform (JArr [dune, arrival, sands]) (byYear\<lparr>sortBy := ''rating''\<rparr>)
     = Inr [sands, arrival, dune]"
proof -
  have cmp: "\<And>a b. compareMovies codePlatform ''year'' ''asc'' a b =
      Inr (jsMinus codePlatform (orElse (field a ''releaseYear'') (JNum 0)) (orElse (field b ''releaseYear'') (JNum 0)))"
    by (simp add: compareMovies_def Let_def)
  have cmpd: "\<And>a b. compareMovies codePlatform ''year'' ''desc'' a b =
      Inr (map_option uminus (jsMinus codePlatform (orElse (field a ''releaseYear'') (JNum 0)) (orElse (field b ''releaseYear'') (JNum 0))))"
    by (simp add: compareMovies_def Let_def)
  note ev = view_def byYear_def initialState_def handleSort_def filteredAndSortedMovies_def
    filtered_def movieFilter_def matchesSearch_def orElse_def jsMinus_def toNumber_def
    sortCompare_def dune_def arrival_def sands_def
  have 1: "view codePlatform (JArr [dune, arrival, sands]) byYear = Inr [arrival, sands, dune]"
    by (simp add: ev cmp)
  have 2: "consistentOn (set [arrival, sands, dune]) codePlatform ''year''"
    by (simp add: consistentOn_def cmpVal_def cmp jsMinus_def toNumber_def orElse_def
        dune_def arrival_def sands_def)
  have 3: "view codePlatform (JArr [dune, arrival, sands]) (handleSort ''year'' byYear)
     = Inr [dune, arrival, sands]"
    by (simp add: ev cmpd)
  have 4: "view codePlatform (JArr [dune, arrival]) byYear = Inr [arrival, dune]"
    by (simp add: ev cmp)
  have 5: "consistentOn (set [arrival, dune]) codePlatform ''year''"
    by (simp add: consistentOn_def cmpVal_def cmp jsMinus_def toNumber_def orElse_def
        dune_def arrival_def)
  have 6: "noTies (set [arrival, dune]) codePlatform ''year''"
    by (simp add: noTies_def cmpVal_def cmp jsMinus_def toNumber_def orElse_def
        dune_def arrival_def)
  have k: "sortBy byYear = ''year''" "sortOrder byYear = ''asc''"
    by (simp_all add: byYear_def)
  note T = sort_toggle_descending_stable[of byYear "''year''" codePlatform "JArr [dune, arrival]"
      "[arrival, dune]"]
  from T k 4 5 6 have 7: "view codePlatform (JArr [dune, arrival]) (handleSort ''year'' byYear)
      = Inr (rev [arrival, dune])"
    by auto
  from T have "\<forall>s fld. fld \<noteq> sortBy s \<longrightarrow> handleSort fld s = s\<lparr>sortBy := fld, sortOrder := ''asc''\<rparr>"
    by blast
  then have "handleSort ''name'' (byYear\<lparr>sortOrder := ''desc''\<rparr>)
      = byYear\<lparr>sortOrder := ''desc'', sortBy := ''name'', sortOrder := ''asc''\<rparr>"
    by (simp add: byYear_def)
  moreover have "handleSort ''year'' byYear = byYear\<lparr>sortOrder := ''desc''\<rparr>"
    by (simp add: handleSort_def byYear_def)
  ultimately have 8: "handleSort ''name'' (handleSort ''year'' byYear) = initialState"
    by (simp add: byYear_def initialState_def)
  have 9: "view codePlatform (JArr [dune, arrival, sands]) initialState = Inr [arrival, dune, sands]"
    by (simp add: ev compareMovies_def callLocaleCompare_def toStr_def codePlatform_def)
  have 10: "view codePlatform (JArr [dune, arrival, sands]) (byYear\<lparr>sortBy := ''rating''\<rparr>)
     = Inr [sands, arrival, dune]"
    by (simp add: ev compareMovies_def)
  from 1 2 3 4 6 7 8 9 10 show ?thesis by simp
qed

subsection \<open>Client: mutation folding\<close>

lemma getProp_field: "\<not> nullish m \<Longrightarrow> getProp m k = Inr (field m k)"
  by (cases m) (auto simp: nullish_def)

lemma mapE_pure: "\<forall>x\<in>set xs. f x = Inr (g x) \<Longrightarrow> mapE f xs = Inr (map g xs)"
  by (induction xs) auto

lemma length_filter_not:
  "length (filter (\<lambda>x. \<not> p x) xs) = length xs - length (filter p xs)"
  using sum_length_filter_compl[of p xs] by simp

text \<open>
  Claim C4, amended. On an array without \<open>null\<close> or \<open>undefined\<close> entries, the delete fold
  removes exactly the entries whose \<open>_id\<close> is the given identifier (one entry when one
  carries it, none when none does) and keeps the other entries in their order.
\<close>

theorem delete_removes_matching_entries:
  assumes "\<forall>m\<in>set ms. \<not> nullish m"
  shows "deleteFold id' (JArr ms) = Inr (JArr (filter (\<lambda>m. field m ''_id'' \<noteq> JStr id') ms)) \<and>
         length (filter (\<lambda>m. field m ''_id'' \<noteq> JStr id') ms) =
           length ms - length (filter (\<lambda>m. field m ''_id'' = JStr id') ms) \<and>
         subseq (filter (\<lambda>m. field m ''_id'' \<noteq> JStr id') ms) ms"
proof -
  have "filterE (\<lambda>movie. case getProp movie ''_id'' of Inl e \<Rightarrow> Inl e | Inr v \<Rightarrow> Inr (v \<noteq> JStr id')) ms
        = Inr (filter (\<lambda>m. field m ''_id'' \<noteq> JStr id') ms)"
    using assms by (intro filterE_pure) (simp add: getProp_field)
  then have "deleteFold id' (JArr ms) = Inr (JArr (filter (\<lambda>m. field m ''_id'' \<noteq> JStr id') ms))"
    by (simp add: deleteFold_def)
  moreover have "length (filter (\<lambda>m. field m ''_id'' \<noteq> JStr id') ms) =
           length ms - length (filter (\<lambda>m. field m ''_id'' = JStr id') ms)"
    by (rule length_filter_not)
  ultimately show ?thesis by simp
qed

text \<open>An instance: deleting \<open>m1\<close> from Dune and Arrival leaves Arrival.\<close>

theorem delete_removes_matching_entries_witness:
  "\<not> nullish dune \<and> \<not> nullish arrival \<and>
   deleteFold ''m1'' (JArr [dune, arrival]) = Inr (JArr [arrival]) \<and>
   length (filter (\<lambda>m. field m ''_id'' = JStr ''m1'') [dune, arrival]) = 1"
proof -
  have h: "\<forall>m\<in>set [dune, arrival]. \<not> nullish m"
    by (simp add: nullish_def dune_def arrival_def)
  have "filter (\<lambda>m. field m ''_id'' \<noteq> JStr ''m1'') [dune, arrival] = [arrival]"
    by (simp add: dune_def arrival_def)
  moreover have "length (filter (\<lambda>m. field m ''_id'' = JStr ''m1'') [dune, arrival]) = 1"
    by (simp add: dune_def arrival_def)
  ultimately show ?thesis
    using delete_removes_matching_entries[OF h, of "''m1''"] h by simp
qed

text \<open>
  Claim C4 as stated fails: an identifier that no entry carries removes nothing, and an
  identifier that two entries carry removes both.
\<close>

theorem delete_exactly_one_counterexample:
  "deleteFold ''zz'' (JArr [JObj [(''_id'', JStr ''m1'')]]) = Inr (JArr [JObj [(''_id'', JStr ''m1'')]]) \<and>
   deleteFold ''m1'' (JArr [JObj [(''_id'', JStr ''m1''), (''name'', JStr ''A'')],
                            JObj [(''_id'', JStr ''m1''), (''name'', JStr ''B'')]]) = Inr (JArr [])"
  by (simp add: deleteFold_def)

text \<open>
  Claim C5, amended. On a value that is not an array, the delete fold and the update fold
  do not throw and set the collection to the empty array.
\<close>

theorem folds_reset_non_array:
  assumes "\<not> isArray v"
  shows "deleteFold id' v = Inr (JArr []) \<and> updateFold id' updatedMovie v = Inr (JArr [])"
  using assms by (cases v) (simp_all add: deleteFold_def updateFold_def)

text \<open>An instance: both folds on \<open>null\<close>.\<close>

theorem folds_reset_non_array_witness:
  "\<not> isArray JNull \<and> deleteFold ''m1'' JNull = Inr (JArr []) \<and>
   updateFold ''m1'' dune JNull = Inr (JArr [])"
  using folds_reset_non_array[of JNull "''m1''" dune] by simp

text \<open>
  Claim C5 as stated fails: on an object in place of the collection, neither fold
  leaves the state as it was.
\<close>

theorem folds_noop_counterexample:
  "deleteFold ''m1'' (JObj [(''movies'', JArr [])]) \<noteq> Inr (JObj [(''movies'', JArr [])]) \<and>
   updateFold ''m1'' JNull (JObj [(''movies'', JArr [])]) \<noteq> Inr (JObj [(''movies'', JArr [])])"
  by (simp add: deleteFold_def updateFold_def)

subsection \<open>Client: genres\<close>











subsection \<open>Server: pagination\<close>

lemma matches_selects: "matches S (buildQuery uid ps) m = selects S uid ps m"
  by (auto simp: matches_def buildQuery_def selects_def nonEmpty_def split: option.splits)

lemma filter_matches_selects:
  "filter (matches S (buildQuery uid ps)) coll = filter (selects S uid ps) coll"
  by (rule filter_cong[OF refl]) (simp add: matches_selects)

lemma castable_buildQuery: "yearCastable S ps \<Longrightarrow> castable S (buildQuery uid ps)"
  by (auto simp: yearCastable_def castable_def buildQuery_def nonEmpty_def split: option.splits)

lemma reads_numParam: "reads P v d n \<Longrightarrow> numParam P (real_of_int d) v = Some (real_of_int n)"
  by (auto simp: reads_def numParam_def split: option.splits)

lemma reads_intParam: "reads P v d n \<Longrightarrow> intParam P d v = Some n"
  by (auto simp: reads_def intParam_def split: option.splits)

text \<open>The reply to a request whose page and limit read as integers of at least 1.\<close>

lemma getMovies_reply:
  assumes cur: "cursorAsDocumented S"
    and pg: "reads P (p_page ps) 1 pg" and lm: "reads P (p_limit ps) 10 lm"
    and pos: "1 \<le> pg" "1 \<le> lm"
    and yr: "yearCastable S ps"
  shows "getMovies P S uid ps coll None =
     Ok 200
       \<lparr>d_movies = take (nat lm) (drop (nat ((pg - 1) * lm))
                     (sortDocs S (sortOf ps) (filter (matches S (buildQuery uid ps)) coll))),
        d_pagination =
          \<lparr>pg_page = Some pg, pg_limit = Some lm,
           pg_total = int (length (filter (matches S (buildQuery uid ps)) coll)),
           pg_pages = Some \<lceil>real (length (filter (matches S (buildQuery uid ps)) coll)) / real_of_int lm\<rceil>\<rparr>,
        d_stats =
          (case groupStats (filter (aggregateMatch S (buildQuery uid ps)) coll) of
             [] \<Rightarrow> defaultStats
           | s # _ \<Rightarrow> s)\<rparr>"
proof -
  have np: "numParam P 1 (p_page ps) = Some (real_of_int pg)"
    using reads_numParam[OF pg] by simp
  have nl: "numParam P 10 (p_limit ps) = Some (real_of_int lm)"
    using reads_numParam[OF lm] by simp
  have il: "intParam P 10 (p_limit ps) = Some lm" using lm by (rule reads_intParam)
  have ip: "intParam P 1 (p_page ps) = Some pg" using pg by (rule reads_intParam)
  have "0 \<le> (pg - 1) * lm" using pos by simp
  then have "(real_of_int pg - 1) * real_of_int lm = real (nat ((pg - 1) * lm))"
    by (simp add: of_nat_nat)
  then have sk: "skipOf P ps = Some (real (nat ((pg - 1) * lm)))"
    by (simp add: skipOf_def np nl)
  have s1: "\<And>xs. skipCursor S (skipOf P ps) xs = Some (drop (nat ((pg - 1) * lm)) xs)"
    unfolding sk using cur by (simp add: cursorAsDocumented_def)
  have "0 < nat lm" "int (nat lm) = lm" using pos by simp_all
  then have s2: "\<And>xs. limitCursor S (Some lm) xs = Some (take (nat lm) xs)"
    using cur by (metis cursorAsDocumented_def)
  have pc: "\<And>n. pagesOf P ps n = Some \<lceil>real n / real_of_int lm\<rceil>"
    using pos by (simp add: pagesOf_def nl)
  show ?thesis
    by (simp add: getMovies_def Let_def rejects_def castable_buildQuery[OF yr] s1 il s2 ip pc)
qed

text \<open>
  Claim C3, amended. Let the page and the limit read as integers of at least 1 (an
  absent page as 1, an absent limit as 10), let the year, if given, be castable, and
  let the cursor skip and limit as documented. Then the list endpoint answers with the
  documents that follow the first \<open>(page - 1) * limit\<close> matching ones in the order of the
  sort (\<open>-createdAt\<close> when absent), at most \<open>limit\<close> of them, and reports the page, the
  limit, the total and \<open>pages = ceil(total / limit)\<close>. With 15 matching documents,
  page 2 and limit 10, these are the documents after the tenth, five of them, and
  \<open>pages = 2\<close>.
\<close>

theorem pagination_window:
  assumes "cursorAsDocumented S"
    and "reads P (p_page ps) 1 pg" and "reads P (p_limit ps) 10 lm"
    and "1 \<le> pg" and "1 \<le> lm"
    and "yearCastable S ps"
  shows "\<exists>d. getMovies P S uid ps coll None = Ok 200 d \<and>
           d_movies d = take (nat lm) (drop (nat ((pg - 1) * lm))
                          (sortDocs S (case p_sort ps of None \<Rightarrow> ''-createdAt'' | Some s \<Rightarrow> s)
                             (filter (selects S uid ps) coll))) \<and>
           length (d_movies d) \<le> nat lm \<and>
           pg_page (d_pagination d) = Some pg \<and>
           pg_limit (d_pagination d) = Some lm \<and>
           pg_total (d_pagination d) = int (length (filter (selects S uid ps) coll)) \<and>
           pg_pages (d_pagination d) =
             Some \<lceil>real (length (filter (selects S uid ps) coll)) / real_of_int lm\<rceil> \<and>
           (pg = 2 \<and> lm = 10 \<and>
            length (filter (selects S uid ps) coll) = 15 \<and>
            length (sortDocs S (case p_sort ps of None \<Rightarrow> ''-createdAt'' | Some s \<Rightarrow> s)
                      (filter (selects S uid ps) coll)) = 15
            \<longrightarrow> d_movies d = drop 10 (sortDocs S (case p_sort ps of None \<Rightarrow> ''-createdAt'' | Some s \<Rightarrow> s)
                                        (filter (selects S uid ps) coll)) \<and>
                length (d_movies d) = 5 \<and> pg_pages (d_pagination d) = Some 2)"
proof -
  let ?found = "filter (selects S uid ps) coll"
  let ?sorted = "sortDocs S (case p_sort ps of None \<Rightarrow> ''-createdAt'' | Some s \<Rightarrow> s) ?found"
  let ?d = "\<lparr>d_movies = take (nat lm) (drop (nat ((pg - 1) * lm)) ?sorted),
             d_pagination =
               \<lparr>pg_page = Some pg, pg_limit = Some lm, pg_total = int (length ?found),
                pg_pages = Some \<lceil>real (length ?found) / real_of_int lm\<rceil>\<rparr>,
             d_stats =
               (case groupStats (filter (aggregateMatch S (buildQuery uid ps)) coll) of
                  [] \<Rightarrow> defaultStats
                | s # _ \<Rightarrow> s)\<rparr>"
  have g: "getMovies P S uid ps coll None = Ok 200 ?d"
    using getMovies_reply[OF assms, of uid coll] by (simp add: sortOf_def filter_matches_selects)
  have ex: "pg = 2 \<and> lm = 10 \<and> length ?found = 15 \<and> length ?sorted = 15
      \<longrightarrow> d_movies ?d = drop 10 ?sorted \<and> length (d_movies ?d) = 5 \<and> pg_pages (d_pagination ?d) = Some 2"
  proof
    assume h: "pg = 2 \<and> lm = 10 \<and> length ?found = 15 \<and> length ?sorted = 15"
    then have "\<lceil>real (length ?found) / real_of_int lm\<rceil> = 2" by simp
    with h show "d_movies ?d = drop 10 ?sorted \<and> length (d_movies ?d) = 5 \<and> pg_pages (d_pagination ?d) = Some 2"
      by simp
  qed
  have "length (d_movies ?d) \<le> nat lm" by simp
  with g ex show ?thesis
    by (intro exI[of _ ?d]) simp
qed

lemma plainStore_cursor: "cursorAsDocumented plainStore"
  by (simp add: cursorAsDocumented_def plainStore_def baseStore_def mongoSkip_def mongoLimit_def)

lemmas example_defs =
  getMovies_def skipOf_def numParam_def intParam_def pagesOf_def sortOf_def codePlatform_def
  decimal_def digit_def plainStore_def baseStore_def mongoSkip_def mongoLimit_def matches_def
  castable_def buildQuery_def nonEmpty_def groupStats_def defaultStats_def rejects_def
  replyData_def noParams_def film_def Let_def

text \<open>
  Instances over fifteen documents of the requesting user, numbered in insertion order:
  page 2 with limit 3 in insertion order gives the documents 04 to 06 and 5 pages; page 2
  with limit 10 gives the documents 11 to 15 and 2 pages; without parameters the reply
  holds the ten newest documents, page 1, limit 10 and 2 pages; with the genre, the year
  and the watched flag of the documents and limit 2 it holds the two newest of 15; for
  another year it holds none of 0.
\<close>

theorem pagination_window_witness:
  "map_option (\<lambda>d. (map m_id (d_movies d), d_pagination d))
     (replyData (getMovies codePlatform plainStore ''u1''
        (noParams\<lparr>p_page := Some ''2'', p_limit := Some ''3'', p_sort := Some ''title''\<rparr>) fifteen None))
     = Some ([''04'', ''05'', ''06''],
             \<lparr>pg_page = Some 2, pg_limit = Some 3, pg_total = 15, pg_pages = Some 5\<rparr>) \<and>
   map_option (\<lambda>d. (map m_id (d_movies d), d_pagination d))
     (replyData (getMovies codePlatform plainStore ''u1''
        (noParams\<lparr>p_page := Some ''2'', p_limit := Some ''10'', p_sort := Some ''title''\<rparr>) fifteen None))
     = Some ([''11'', ''12'', ''13'', ''14'', ''15''],
             \<lparr>pg_page = Some 2, pg_limit = Some 10, pg_total = 15, pg_pages = Some 2\<rparr>) \<and>
   map_option (\<lambda>d. (map m_id (d_movies d), d_pagination d))
     (replyData (getMovies codePlatform plainStore ''u1'' noParams fifteen None))
     = Some ([''15'', ''14'', ''13'', ''12'', ''11'', ''10'', ''09'', ''08'', ''07'', ''06''],
             \<lparr>pg_page = Some 1, pg_limit = Some 10, pg_total = 15, pg_pages = Some 2\<rparr>) \<and>
   map_option (\<lambda>d. (map m_id (d_movies d), d_pagination d))
     (replyData (getMovies codePlatform plainStore ''u1''
        (noParams\<lparr>p_limit := Some ''2'', p_genre := Some ''Drama'', p_year := Some ''2000'',
                   p_watched := Some ''false''\<rparr>) fifteen None))
     = Some ([''15'', ''14''],
             \<lparr>pg_page = Some 1, pg_limit = Some 2, pg_total = 15, pg_pages = Some 8\<rparr>) \<and>
   map_option (\<lambda>d. (map m_id (d_movies d), d_pagination d))
     (replyData (getMovies codePlatform plainStore ''u1''
        (noParams\<lparr>p_year := Some ''1999''\<rparr>) fifteen None))
     = Some ([], \<lparr>pg_page = Some 1, pg_limit = Some 10, pg_total = 0, pg_pages = Some 0\<rparr>)"
proof -
  let ?ps = "noParams\<lparr>p_page := Some ''2'', p_limit := Some ''3'', p_sort := Some ''title''\<rparr>"
  have pg: "reads codePlatform (p_page ?ps) 1 2"
    by (simp add: reads_def codePlatform_def decimal_def digit_def noParams_def)
  have lm: "reads codePlatform (p_limit ?ps) 10 3"
    by (simp add: reads_def codePlatform_def decimal_def digit_def noParams_def)
  have yr: "yearCastable plainStore ?ps"
    by (simp add: yearCastable_def noParams_def)
  have f: "filter (selects plainStore ''u1'' ?ps) fifteen = fifteen"
    by (simp add: fifteen_def film_def selects_def noParams_def)
  have s: "\<And>ms. sortDocs plainStore ''title'' ms = ms"
    by (simp add: plainStore_def baseStore_def)
  have srt: "(case p_sort ?ps of None \<Rightarrow> ''-createdAt'' | Some s \<Rightarrow> s) = ''title''"
    by (simp add: noParams_def)
  from pagination_window[OF plainStore_cursor pg lm _ _ yr, of "''u1''" fifteen]
  obtain d where d: "getMovies codePlatform plainStore ''u1'' ?ps fifteen None = Ok 200 d"
    and m: "d_movies d = take 3 (drop 3 fifteen)"
    and p: "pg_page (d_pagination d) = Some 2" "pg_limit (d_pagination d) = Some 3"
       "pg_total (d_pagination d) = int (length fifteen)"
       "pg_pages (d_pagination d) = Some \<lceil>real (length fifteen) / 3\<rceil>"
    by (auto simp: f s srt)
  have "length fifteen = 15" "map m_id (take 3 (drop 3 fifteen)) = [''04'', ''05'', ''06'']"
    by (simp_all add: fifteen_def film_def)
  with m p have "map m_id (d_movies d) = [''04'', ''05'', ''06'']"
    "d_pagination d = \<lparr>pg_page = Some 2, pg_limit = Some 3, pg_total = 15, pg_pages = Some 5\<rparr>"
    by (cases "d_pagination d"; simp)+
  with d have 1: "map_option (\<lambda>d. (map m_id (d_movies d), d_pagination d))
     (replyData (getMovies codePlatform plainStore ''u1'' ?ps fifteen None))
     = Some ([''04'', ''05'', ''06''],
             \<lparr>pg_page = Some 2, pg_limit = Some 3, pg_total = 15, pg_pages = Some 5\<rparr>)"
    by (simp add: replyData_def)
  have 2: "map_option (\<lambda>d. (map m_id (d_movies d), d_pagination d))
     (replyData (getMovies codePlatform plainStore ''u1''
        (noParams\<lparr>p_page := Some ''2'', p_limit := Some ''10'', p_sort := Some ''title''\<rparr>) fifteen None))
     = Some ([''11'', ''12'', ''13'', ''14'', ''15''],
             \<lparr>pg_page = Some 2, pg_limit = Some 10, pg_total = 15, pg_pages = Some 2\<rparr>)"
    by (simp add: example_defs fifteen_def)
  have 3: "map_option (\<lambda>d. (map m_id (d_movies d), d_pagination d))
     (replyData (getMovies codePlatform plainStore ''u1'' noParams fifteen None))
     = Some ([''15'', ''14'', ''13'', ''12'', ''11'', ''10'', ''09'', ''08'', ''07'', ''06''],
             \<lparr>pg_page = Some 1, pg_limit = Some 10, pg_total = 15, pg_pages = Some 2\<rparr>)"
    by (simp add: example_defs fifteen_def)
  have 4: "map_option (\<lambda>d. (map m_id (d_movies d), d_pagination d))
     (replyData (getMovies codePlatform plainStore ''u1''
        (noParams\<lparr>p_limit := Some ''2'', p_genre := Some ''Drama'', p_year := Some ''2000'',
                   p_watched := Some ''false''\<rparr>) fifteen None))
     = Some ([''15'', ''14''],
             \<lparr>pg_page = Some 1, pg_limit = Some 2, pg_total = 15, pg_pages = Some 8\<rparr>)"
    by (simp add: example_defs fifteen_def)
  have 5: "map_option (\<lambda>d. (map m_id (d_movies d), d_pagination d))
     (replyData (getMovies codePlatform plainStore ''u1''
        (noParams\<lparr>p_year := Some ''1999''\<rparr>) fifteen None))
     = Some ([], \<lparr>pg_page = Some 1, pg_limit = Some 10, pg_total = 0, pg_pages = Some 0\<rparr>)"
    by (simp add: example_defs fifteen_def)
  from 1 2 3 4 5 show ?thesis by simp
qed

text \<open>
  Claim C3 as stated fails for requests it does not exclude: with \<open>limit=0\<close> the cursor
  sets no limit, all 15 documents are returned and \<open>pages\<close> is \<open>null\<close>; with \<open>page=0\<close> the
  skip is \<open>-10\<close>, the database rejects it and the reply is the 500 error; so is the reply
  when the year cannot be cast.
\<close>

theorem pagination_every_request_counterexample:
  "map_option (\<lambda>d. (length (d_movies d), d_pagination d))
     (replyData (getMovies codePlatform plainStore ''u1'' (noParams\<lparr>p_limit := Some ''0''\<rparr>) fifteen None))
     = Some (15, \<lparr>pg_page = Some 1, pg_limit = Some 0, pg_total = 15, pg_pages = None\<rparr>) \<and>
   getMovies codePlatform plainStore ''u1'' (noParams\<lparr>p_page := Some ''0''\<rparr>) fifteen None
     = Fail 500 ''Server error'' \<and>
   getMovies codePlatform plainStore ''u1'' (noParams\<lparr>p_year := Some ''soon''\<rparr>) fifteen None
     = Fail 500 ''Server error''"
  by (simp add: example_defs fifteen_def)

subsection \<open>Server: statistics\<close>

lemma filter_none: "\<forall>m\<in>set coll. \<not> p m \<Longrightarrow> filter p coll = []"
  by (induction coll) auto

lemma aggregate_none:
  assumes "aggregateWithinFilter S" and "\<forall>m\<in>set coll. \<not> matches S q m"
  shows "filter (aggregateMatch S q) coll = []"
  using assms by (intro filter_none) (auto simp: aggregateWithinFilter_def)

lemma getMovies_Ok_stats:
  assumes "getMovies P S uid ps coll fault = Ok c d"
  shows "c = 200 \<and>
         d_stats d = (case groupStats (filter (aggregateMatch S (buildQuery uid ps)) coll) of
                        [] \<Rightarrow> defaultStats | s # _ \<Rightarrow> s) \<and>
         pg_total (d_pagination d) = int (length (filter (matches S (buildQuery uid ps)) coll))"
  using assms by (auto simp: getMovies_def Let_def split: if_splits option.splits)

lemma getMovies_cases:
  "getMovies P S uid ps coll fault = Fail 500 ''Server error'' \<or>
   (\<exists>d. getMovies P S uid ps coll fault = Ok 200 d)"
  by (auto simp: getMovies_def Let_def split: if_splits option.splits)

text \<open>
  Claim C7, amended. Let the aggregation select only documents that satisfy the filter.
  A list request whose predicate matches no stored movie is answered either with the 500
  error (when the database rejects the \<open>find\<close> call) or with 200, total 0 and the
  statistics \<open>totalMovies = 0\<close>, \<open>avgRating = 0\<close>, \<open>totalRuntime = 0\<close> and no genres; it is
  answered with 200 when the page and the limit read as integers of at least 1, the year
  can be cast and the cursor behaves as documented. When the user owns no movie, the
  overview endpoint answers 200 with an overview of four zeros (movies, average rating,
  runtime, watched) and empty lists of top genres and recent years.
\<close>

theorem zero_match_default_stats:
  assumes "aggregateWithinFilter S"
  shows "((\<forall>m\<in>set coll. \<not> selects S uid ps m) \<longrightarrow>
            (getMovies P S uid ps coll None = Fail 500 ''Server error'' \<or>
             (\<exists>d. getMovies P S uid ps coll None = Ok 200 d \<and>
                  pg_total (d_pagination d) = 0 \<and>
                  d_stats d = \<lparr>totalMovies = 0, avgRating = 0, totalRuntime = 0, genresSeen = {}\<rparr>)) \<and>
            (cursorAsDocumented S \<and> reads P (p_page ps) 1 pg \<and> reads P (p_limit ps) 10 lm \<and>
             1 \<le> pg \<and> 1 \<le> lm \<and> yearCastable S ps
             \<longrightarrow> (\<exists>d. getMovies P S uid ps coll None = Ok 200 d))) \<and>
         ((\<forall>m\<in>set coll. addedBy m \<noteq> uid) \<longrightarrow>
            getOverviewStats S uid coll None =
              Ok 200 \<lparr>o_overview = \<lparr>ov_totalMovies = 0, ov_avgRating = 0, ov_totalRuntime = 0,
                                     ov_watchedCount = 0\<rparr>,
                      o_topGenres = [], o_recentYears = []\<rparr>)"
proof (intro conjI impI)
  assume "\<forall>m\<in>set coll. \<not> selects S uid ps m"
  then have z: "\<forall>m\<in>set coll. \<not> matches S (buildQuery uid ps) m"
    by (simp add: matches_selects)
  have a: "filter (aggregateMatch S (buildQuery uid ps)) coll = []"
    using assms z by (rule aggregate_none)
  have f: "filter (matches S (buildQuery uid ps)) coll = []"
    using z by (rule filter_none)
  show "getMovies P S uid ps coll None = Fail 500 ''Server error'' \<or>
        (\<exists>d. getMovies P S uid ps coll None = Ok 200 d \<and>
             pg_total (d_pagination d) = 0 \<and>
             d_stats d = \<lparr>totalMovies = 0, avgRating = 0, totalRuntime = 0, genresSeen = {}\<rparr>)"
  proof (cases "getMovies P S uid ps coll None = Fail 500 ''Server error''")
    case True
    then show ?thesis by simp
  next
    case False
    with getMovies_cases[of P S uid ps coll None]
    obtain d where d: "getMovies P S uid ps coll None = Ok 200 d" by blast
    from getMovies_Ok_stats[OF d] a f
    have "pg_total (d_pagination d) = 0 \<and>
          d_stats d = \<lparr>totalMovies = 0, avgRating = 0, totalRuntime = 0, genresSeen = {}\<rparr>"
      by (simp add: groupStats_def defaultStats_def)
    with d show ?thesis by blast
  qed
next
  assume "cursorAsDocumented S \<and> reads P (p_page ps) 1 pg \<and> reads P (p_limit ps) 10 lm \<and>
             1 \<le> pg \<and> 1 \<le> lm \<and> yearCastable S ps"
  then show "\<exists>d. getMovies P S uid ps coll None = Ok 200 d"
    using getMovies_reply[of S P ps pg lm uid coll] by blast
next
  assume "\<forall>m\<in>set coll. addedBy m \<noteq> uid"
  then have z: "\<forall>m\<in>set coll. \<not> matches S (ownedBy uid) m"
    by (simp add: matches_def ownedBy_def)
  have "filter (aggregateMatch S (ownedBy uid)) coll = []"
    using assms z by (rule aggregate_none)
  then show "getOverviewStats S uid coll None =
        Ok 200 \<lparr>o_overview = \<lparr>ov_totalMovies = 0, ov_avgRating = 0, ov_totalRuntime = 0,
                               ov_watchedCount = 0\<rparr>,
                o_topGenres = [], o_recentYears = []\<rparr>"
    by (simp add: getOverviewStats_def Let_def rejects_def groupOverview_def defaultOverview_def
        genreStats_def yearStats_def countBy_def)
qed

lemma plainStore_aggregate: "aggregateWithinFilter plainStore"
  by (auto simp: aggregateWithinFilter_def plainStore_def baseStore_def matches_def
      split: option.splits)

text \<open>
  An instance: beside fifteen movies of \<open>u1\<close>, the user \<open>u2\<close> owns none and gets the
  default statistics from both endpoints, while \<open>u1\<close> gets those of its movies.
\<close>

theorem zero_match_default_stats_witness:
  "map_option d_stats (replyData (getMovies codePlatform plainStore ''u2'' noParams fifteen None))
     = Some \<lparr>totalMovies = 0, avgRating = 0, totalRuntime = 0, genresSeen = {}\<rparr> \<and>
   getOverviewStats plainStore ''u2'' fifteen None =
     Ok 200 \<lparr>o_overview = \<lparr>ov_totalMovies = 0, ov_avgRating = 0, ov_totalRuntime = 0,
                            ov_watchedCount = 0\<rparr>,
             o_topGenres = [], o_recentYears = []\<rparr> \<and>
   map_option d_stats (replyData (getMovies codePlatform plainStore ''u1'' noParams fifteen None))
     = Some \<lparr>totalMovies = 15, avgRating = 0, totalRuntime = 1350, genresSeen = {[''Drama'']}\<rparr>"
proof -
  have z: "\<forall>m\<in>set fifteen. \<not> selects plainStore ''u2'' noParams m"
    by (simp add: fifteen_def film_def selects_def)
  have zo: "\<forall>m\<in>set fifteen. addedBy m \<noteq> ''u2''"
    by (simp add: fifteen_def film_def)
  have ok: "getMovies codePlatform plainStore ''u2'' noParams fifteen None \<noteq> Fail 500 ''Server error''"
    by (simp add: example_defs fifteen_def)
  note T = zero_match_default_stats[OF plainStore_aggregate, of fifteen "''u2''" noParams codePlatform]
  from T z ok obtain d where "getMovies codePlatform plainStore ''u2'' noParams fifteen None = Ok 200 d"
    "d_stats d = \<lparr>totalMovies = 0, avgRating = 0, totalRuntime = 0, genresSeen = {}\<rparr>"
    by blast
  then have 1: "map_option d_stats (replyData (getMovies codePlatform plainStore ''u2'' noParams fifteen None))
     = Some \<lparr>totalMovies = 0, avgRating = 0, totalRuntime = 0, genresSeen = {}\<rparr>"
    by (simp add: replyData_def)
  from T zo have 2: "getOverviewStats plainStore ''u2'' fifteen None =
     Ok 200 \<lparr>o_overview = \<lparr>ov_totalMovies = 0, ov_avgRating = 0, ov_totalRuntime = 0,
                            ov_watchedCount = 0\<rparr>,
             o_topGenres = [], o_recentYears = []\<rparr>"
    by blast
  have 3: "map_option d_stats (replyData (getMovies codePlatform plainStore ''u1'' noParams fifteen None))
     = Some \<lparr>totalMovies = 15, avgRating = 0, totalRuntime = 1350, genresSeen = {[''Drama'']}\<rparr>"
    by (simp add: example_defs fifteen_def)
  from 1 2 3 show ?thesis by simp
qed

text \<open>
  Claim C7 as stated fails: for a user without movies, the request \<open>page=0\<close> matches no
  movie and is answered with the 500 error, not with the default statistics.
\<close>

theorem zero_match_error_counterexample:
  "filter (selects plainStore ''u2'' (noParams\<lparr>p_page := Some ''0''\<rparr>)) fifteen = [] \<and>
   getMovies codePlatform plainStore ''u2'' (noParams\<lparr>p_page := Some ''0''\<rparr>) fifteen None
     = Fail 500 ''Server error''"
  by (simp add: example_defs selects_def fifteen_def)

subsection \<open>Server: ownership\<close>

lemma matches_owner: "matches S q m \<Longrightarrow> addedBy m = q_addedBy q"
  by (simp add: matches_def)

lemma find_SomeD: "find p xs = Some x \<Longrightarrow> p x \<and> x \<in> set xs"
  by (induction xs) (auto split: if_splits)

lemma length_replaceFirst: "length (replaceFirst p f xs) = length xs"
  by (induction xs) auto

lemma nth_replaceFirst:
  "i < length xs \<Longrightarrow> \<not> p (xs ! i) \<Longrightarrow> replaceFirst p f xs ! i = xs ! i"
proof (induction xs arbitrary: i)
  case Nil
  then show ?case by simp
next
  case (Cons x xs)
  then show ?case by (cases i) auto
qed

lemma filter_removeFirst:
  "\<forall>x\<in>set xs. p x \<longrightarrow> \<not> q x \<Longrightarrow> filter q (removeFirst p xs) = filter q xs"
  by (induction xs) auto

lemma others_removeFirst:
  "others uid (removeFirst (matches S (ownedById uid i)) ms) = others uid ms"
  unfolding others_def
  by (rule filter_removeFirst) (auto dest: matches_owner simp: ownedById_def)

text \<open>What is assumed of the store for the list endpoint: it returns stored documents only.\<close>

lemma getMovies_owned:
  assumes "\<forall>s xs. set (sortDocs S s xs) \<subseteq> set xs"
    and "\<forall>v xs ys. skipCursor S v xs = Some ys \<longrightarrow> set ys \<subseteq> set xs"
    and "\<forall>v xs ys. limitCursor S v xs = Some ys \<longrightarrow> set ys \<subseteq> set xs"
    and "getMovies P S uid ps coll fault = Ok c d"
    and "m \<in> set (d_movies d)"
  shows "addedBy m = uid \<and> m \<in> set coll"
proof -
  let ?found = "filter (matches S (buildQuery uid ps)) coll"
  from assms(4) obtain rest where
    r: "skipCursor S (skipOf P ps) (sortDocs S (sortOf ps) ?found) = Some rest"
    and d: "limitCursor S (intParam P 10 (p_limit ps)) rest = Some (d_movies d)"
    by (auto simp: getMovies_def Let_def split: if_splits option.splits)
  from assms(3,5) d have "m \<in> set rest" by blast
  with assms(2) r have "m \<in> set (sortDocs S (sortOf ps) ?found)" by blast
  with assms(1) have "m \<in> set ?found" by blast
  then have "matches S (buildQuery uid ps) m" "m \<in> set coll" by auto
  then show ?thesis by (auto dest: matches_owner simp: buildQuery_def)
qed

lemma getMovie_owned:
  assumes "getMovie S uid i coll fault = Ok c m"
  shows "addedBy m = uid \<and> m_id m = i \<and> m \<in> set coll"
proof -
  from assms have "find (matches S (ownedById uid i)) coll = Some m"
    by (auto simp: getMovie_def split: if_splits option.splits)
  then have "matches S (ownedById uid i) m \<and> m \<in> set coll" by (rule find_SomeD)
  then show ?thesis by (auto simp: matches_def ownedById_def)
qed

lemma updateMovie_others:
  assumes "i < length (movies st)" and "addedBy (movies st ! i) \<noteq> uid"
  shows "movies (snd (updateMovie S uid errs k upd st fault)) ! i = movies st ! i"
proof -
  have "\<not> matches S (ownedById uid k) (movies st ! i)"
    using assms(2) by (auto dest: matches_owner simp: ownedById_def)
  with assms(1) show ?thesis
    by (auto simp: updateMovie_def nth_replaceFirst split: option.splits)
qed

lemma updateMovie_length:
  "length (movies (snd (updateMovie S uid errs k upd st fault))) = length (movies st)"
  by (auto simp: updateMovie_def length_replaceFirst split: option.splits)

lemma deleteMovie_others:
  "others uid (movies (snd (deleteMovie S uid k st fault))) = others uid (movies st)"
  by (auto simp: deleteMovie_def Let_def others_removeFirst split: option.splits)

lemma toggle_length:
  "length (movies (snd (toggleWatchStatus S uid k now st fault))) = length (movies st)"
  by (auto simp: toggleWatchStatus_def Let_def length_replaceFirst split: option.splits)

lemma toggle_others:
  assumes d: "distinct (map m_id (movies st))"
    and i: "i < length (movies st)" and o: "addedBy (movies st ! i) \<noteq> uid"
  shows "movies (snd (toggleWatchStatus S uid k now st fault)) ! i = movies st ! i"
proof (cases "find (matches S (ownedById uid k)) (movies st)")
  case None
  then show ?thesis by (simp add: toggleWatchStatus_def)
next
  case (Some old)
  then have old: "matches S (ownedById uid k) old" "old \<in> set (movies st)"
    using find_SomeD by fastforce+
  then have own: "addedBy old = uid" by (auto dest: matches_owner simp: ownedById_def)
  have "m_id (movies st ! i) \<noteq> m_id old"
  proof
    assume e: "m_id (movies st ! i) = m_id old"
    from d have "inj_on m_id (set (movies st))" by (simp add: distinct_map)
    with e i old(2) have "movies st ! i = old" by (auto dest: inj_onD)
    with o own show False by simp
  qed
  with i Some show ?thesis
    by (simp add: toggleWatchStatus_def Let_def nth_replaceFirst)
qed

text \<open>
  What holds of ownership. Every filter carries the requesting user as its owner
  condition, whatever the request parameters are, and a document satisfies a filter only
  if that user added it; get-one returns only such a document; update, delete and
  toggle-watch leave every document of another user as it was (unique \<open>_id\<close>s assumed
  for toggle-watch).
\<close>

lemma filters_scoped_to_owner:
  "q_addedBy (buildQuery uid ps) = uid \<and>
   q_addedBy (ownedById uid k) = uid \<and>
   q_addedBy (ownedBy uid) = uid \<and>
   (\<forall>q m. matches S q m \<longrightarrow> addedBy m = q_addedBy q)"
  by (simp add: buildQuery_def ownedById_def ownedBy_def matches_owner)

lemma updateMovie_reply:
  assumes "fst (updateMovie S uid errs k upd st fault) = Ok c m"
  shows "\<exists>old\<in>set (movies st). addedBy old = uid \<and> m_id old = k \<and>
           m = (upd old)\<lparr>m_id := m_id old\<rparr>"
proof -
  from assms obtain old where "find (matches S (ownedById uid k)) (movies st) = Some old"
    and m: "m = (upd old)\<lparr>m_id := m_id old\<rparr>"
    by (auto simp: updateMovie_def split: if_splits option.splits)
  then have "matches S (ownedById uid k) old \<and> old \<in> set (movies st)"
    using find_SomeD by fastforce
  with m show ?thesis by (auto simp: matches_def ownedById_def)
qed

lemma toggle_reply:
  assumes "fst (toggleWatchStatus S uid k now st fault) = Ok c m"
  shows "addedBy m = uid \<and> m_id m = k"
proof -
  from assms obtain old where "find (matches S (ownedById uid k)) (movies st) = Some old"
    and m: "m = old\<lparr>watched := \<not> watched old,
                      watchDate := (if \<not> watched old then Some now else None)\<rparr>"
    by (auto simp: toggleWatchStatus_def Let_def split: if_splits option.splits)
  then have "matches S (ownedById uid k) old"
    using find_SomeD by fastforce
  with m show ?thesis by (auto simp: matches_def ownedById_def)
qed

text \<open>
  Claim C8 fails on the code. \<open>updateMovie\<close> selects the document with the owner
  condition but hands the whole request body to the update, \<open>addedBy\<close> included, while
  \<open>createMovie\<close> overrides the \<open>addedBy\<close> of the body with the requesting user. A PUT by
  \<open>u1\<close> on its movie \<open>m1\<close> with \<open>addedBy = u2\<close> in the body is answered 200 with a document
  owned by \<open>u2\<close>, and the movie that \<open>u1\<close> added is from then on in the list of \<open>u2\<close>
  (which held \<open>m2\<close> only) and no longer in that of \<open>u1\<close>.
\<close>

theorem update_hands_movie_to_other_user:
  "map_option (map m_id \<circ> d_movies)
     (replyData (getMovies codePlatform plainStore ''u2'' noParams (movies twoUsers) None))
     = Some [''m2''] \<and>
   fst (updateMovie plainStore ''u1'' [] ''m1'' (\<lambda>m. m\<lparr>addedBy := ''u2''\<rparr>) twoUsers None)
     = Ok 200 (film ''m1'' ''u2'' 90) \<and>
   map_option (map m_id \<circ> d_movies)
     (replyData (getMovies codePlatform plainStore ''u2'' noParams
        (movies (snd (updateMovie plainStore ''u1'' [] ''m1'' (\<lambda>m. m\<lparr>addedBy := ''u2''\<rparr>) twoUsers None)))
        None))
     = Some [''m2'', ''m1''] \<and>
   map_option (map m_id \<circ> d_movies)
     (replyData (getMovies codePlatform plainStore ''u1'' noParams
        (movies (snd (updateMovie plainStore ''u1'' [] ''m1'' (\<lambda>m. m\<lparr>addedBy := ''u2''\<rparr>) twoUsers None)))
        None))
     = Some [''m3'']"
  by (simp add: example_defs updateMovie_def ownedById_def twoUsers_def)

subsection \<open>Server: owner counters\<close>

lemma createMovie_ok:
  assumes "createMovie uid errs body newId st fault = (Ok c m, st1)"
  shows "newId \<notin> m_id ` set (movies st) \<and> m = body\<lparr>m_id := newId, addedBy := uid\<rparr> \<and>
         movies st1 = movies st @ [m] \<and>
         users st1 = incCounters uid 1 (durationOr0 m) (users st)"
  using assms by (auto simp: createMovie_def Let_def split: if_splits)

lemma find_append_fresh:
  "\<forall>x\<in>set xs. \<not> p x \<Longrightarrow> p y \<Longrightarrow> find p (xs @ [y]) = Some y"
  by (induction xs) auto

lemma removeFirst_append_fresh:
  "\<forall>x\<in>set xs. \<not> p x \<Longrightarrow> p y \<Longrightarrow> removeFirst p (xs @ [y]) = xs"
  by (induction xs) auto

lemma incCounters_undo:
  "incCounters uid (- 1) (- t) (incCounters uid 1 t us) = us"
  by (auto simp: incCounters_def fun_eq_iff split: option.splits)

text \<open>
  A create that is answered with success, followed by a delete of the created movie that
  is answered with success, puts the store back where it was: the movie is gone and the
  owner's counters have their old values.
\<close>

lemma create_then_delete_restores:
  assumes c: "createMovie uid errs body newId st f1 = (Ok c1 m, st1)"
    and d: "deleteMovie S uid newId st1 f2 = (Ok c2 (), st2)"
  shows "st2 = st"
proof -
  from createMovie_ok[OF c] have fresh: "newId \<notin> m_id ` set (movies st)"
    and m: "m = body\<lparr>m_id := newId, addedBy := uid\<rparr>"
    and ms: "movies st1 = movies st @ [m]"
    and us: "users st1 = incCounters uid 1 (durationOr0 m) (users st)"
    by auto
  let ?p = "matches S (ownedById uid newId)"
  have none: "\<forall>x\<in>set (movies st). \<not> ?p x"
    using fresh by (auto simp: matches_def ownedById_def)
  have pm: "?p m" using m by (simp add: matches_def ownedById_def)
  have f: "find ?p (movies st1) = Some m"
    unfolding ms using none pm by (rule find_append_fresh)
  have r: "removeFirst ?p (movies st1) = movies st"
    unfolding ms using none pm by (rule removeFirst_append_fresh)
  have "st1\<lparr>movies := movies st, users := incCounters uid (- 1) (- durationOr0 m) (users st1)\<rparr> = st"
    using us ms incCounters_undo[of uid "durationOr0 m" "users st"]
    by (cases st, cases st1) simp
  with d f r show ?thesis
    by (auto simp: deleteMovie_def Let_def split: if_splits)
qed

text \<open>
  The counters are adjusted by create and delete only. An update of the duration between
  the two (all calls succeeding) leaves \<open>totalWatchTime\<close> at 100 while the only movie
  lasts 50, and the delete then takes 50 off: the user owns no movie and has a watch
  time of 50.
\<close>

lemma update_between_create_and_delete_drifts:
  "map duration (movies afterUpdate) = [50] \<and>
   map_option totalWatchTime (users afterUpdate ''u1'') = Some 100 \<and>
   fst (deleteMovie plainStore ''u1'' ''m1'' afterUpdate None) = Ok 200 () \<and>
   movies (snd (deleteMovie plainStore ''u1'' ''m1'' afterUpdate None)) = [] \<and>
   map_option totalWatchTime (users (snd (deleteMovie plainStore ''u1'' ''m1'' afterUpdate None)) ''u1'')
     = Some 50"
  by (simp add: afterUpdate_def createMovie_def updateMovie_def deleteMovie_def Let_def rejects_def
      oneUser_def film_def matches_def ownedById_def incCounters_def durationOr0_def)

text \<open>
  Claim C9 fails on the code. The movie is stored by the first storage call of
  \<open>createMovie\<close> and the counters are raised by a second one; when the second call
  rejects, the handler answers 500, the movie stays stored, and the owner's
  \<open>movieCount\<close> and \<open>totalWatchTime\<close> stay at their old values. (Likewise in \<open>deleteMovie\<close>.)
\<close>

theorem create_counters_lost_on_second_call_failure:
  "fst (createMovie ''u1'' [] (film [] [] 120) ''m1'' oneUser (Some 1)) = Fail 500 ''Server error'' \<and>
   movies (snd (createMovie ''u1'' [] (film [] [] 120) ''m1'' oneUser (Some 1)))
     = [film ''m1'' ''u1'' 120\<lparr>title := []\<rparr>] \<and>
   map_option movieCount (users (snd (createMovie ''u1'' [] (film [] [] 120) ''m1'' oneUser (Some 1))) ''u1'')
     = Some 0 \<and>
   map_option totalWatchTime (users (snd (createMovie ''u1'' [] (film [] [] 120) ''m1'' oneUser (Some 1))) ''u1'')
     = Some 0"
  by (simp add: createMovie_def Let_def rejects_def oneUser_def film_def)

subsection \<open>Server: watchlist\<close>

lemma addToWatchlist_distinct:
  assumes "\<forall>u. users st uid = Some u \<longrightarrow> distinct (watchlist u)"
  shows "\<forall>u. users (snd (addToWatchlist uid i st fault)) uid = Some u \<longrightarrow> distinct (watchlist u)"
  using assms by (auto simp: addToWatchlist_def split: option.splits if_splits)

lemma addAll_distinct:
  assumes "\<forall>u. users st uid = Some u \<longrightarrow> distinct (watchlist u)"
  shows "\<forall>u. users (addAll uid rs st) uid = Some u \<longrightarrow> distinct (watchlist u)"
  using assms
proof (induction rs arbitrary: st)
  case Nil
  then show ?case by simp
next
  case (Cons r rs)
  obtain i fault where r: "r = (i, fault)" by (cases r)
  from Cons.prems have "\<forall>u. users (snd (addToWatchlist uid i st fault)) uid = Some u \<longrightarrow> distinct (watchlist u)"
    by (rule addToWatchlist_distinct)
  then show ?case unfolding r by (simp add: Cons.IH)
qed

text \<open>
  Claim C10. For a stored user whose lookup succeeds, a movie id already on the watchlist
  is answered with 400 and the store is unchanged. An id that is not on it is, when the
  save succeeds too, appended at the end of the watchlist with answer 200, and nothing
  else changes. A watchlist without duplicates has none after any run of such requests,
  whatever their outcomes; in particular one that started empty.
\<close>

theorem watchlist_append_once:
  assumes "users st uid = Some u"
  shows "(i \<in> set (watchlist u) \<and> \<not> rejects fault 0 \<longrightarrow>
            addToWatchlist uid i st fault = (Fail 400 ''Movie already in watchlist'', st)) \<and>
         (i \<notin> set (watchlist u) \<longrightarrow>
            addToWatchlist uid i st None =
              (Ok 200 (), st\<lparr>users := (users st)(uid \<mapsto> u\<lparr>watchlist := watchlist u @ [i]\<rparr>)\<rparr>)) \<and>
         (distinct (watchlist u) \<longrightarrow>
            (\<forall>u'. users (addAll uid rs st) uid = Some u' \<longrightarrow> distinct (watchlist u')))"
proof (intro conjI impI)
  assume "i \<in> set (watchlist u) \<and> \<not> rejects fault 0"
  with assms show "addToWatchlist uid i st fault = (Fail 400 ''Movie already in watchlist'', st)"
    by (simp add: addToWatchlist_def)
next
  assume "i \<notin> set (watchlist u)"
  with assms show "addToWatchlist uid i st None =
      (Ok 200 (), st\<lparr>users := (users st)(uid \<mapsto> u\<lparr>watchlist := watchlist u @ [i]\<rparr>)\<rparr>)"
    by (simp add: addToWatchlist_def rejects_def)
next
  assume "distinct (watchlist u)"
  with assms have "\<forall>v. users st uid = Some v \<longrightarrow> distinct (watchlist v)" by simp
  then show "\<forall>u'. users (addAll uid rs st) uid = Some u' \<longrightarrow> distinct (watchlist u')"
    by (rule addAll_distinct)
qed

text \<open>
  An instance: on an empty watchlist, \<open>m1\<close>, \<open>m2\<close>, \<open>m1\<close> again and \<open>m3\<close> with a failing save
  leave the watchlist \<open>[m1, m2]\<close>; the repeated \<open>m1\<close> is answered with 400.
\<close>

theorem watchlist_append_once_witness:
  "users oneUser ''u1'' = Some \<lparr>movieCount = 0, totalWatchTime = 0, watchlist = []\<rparr> \<and>
   addToWatchlist ''u1'' ''m1'' oneUser None =
     (Ok 200 (), oneUser\<lparr>users := (users oneUser)(''u1'' \<mapsto>
        \<lparr>movieCount = 0, totalWatchTime = 0, watchlist = [''m1'']\<rparr>)\<rparr>) \<and>
   fst (addToWatchlist ''u1'' ''m1'' (snd (addToWatchlist ''u1'' ''m1'' oneUser None)) None)
     = Fail 400 ''Movie already in watchlist'' \<and>
   map_option watchlist
     (users (addAll ''u1'' [(''m1'', None), (''m2'', None), (''m1'', None), (''m3'', Some 1)] oneUser) ''u1'')
     = Some [''m1'', ''m2'']"
proof -
  have u: "users oneUser ''u1'' = Some \<lparr>movieCount = 0, totalWatchTime = 0, watchlist = []\<rparr>"
    by (simp add: oneUser_def)
  have "fst (addToWatchlist ''u1'' ''m1'' (snd (addToWatchlist ''u1'' ''m1'' oneUser None)) None)
     = Fail 400 ''Movie already in watchlist''"
    by (simp add: addToWatchlist_def rejects_def oneUser_def)
  moreover have "map_option watchlist
     (users (addAll ''u1'' [(''m1'', None), (''m2'', None), (''m1'', None), (''m3'', Some 1)] oneUser) ''u1'')
     = Some [''m1'', ''m2'']"
    by (simp add: addToWatchlist_def rejects_def oneUser_def)
  ultimately show ?thesis
    using watchlist_append_once[OF u, of "''m1''"] u by simp
qed

end
